theory Spec2Isabelle
  imports Main
begin

chapter \<open>Release reconciler and trait context builder\<close>

text \<open>
  A shallow embedding of \<^verbatim>\<open>internal/controller/release/controller.go\<close>,
  \<^verbatim>\<open>internal/controller/release/controller_finalize.go\<close> and
  \<^verbatim>\<open>internal/pipeline/component/context/trait.go\<close>.

  Conventions. A Go \<^verbatim>\<open>error\<close> is a value of the datatype \<open>error\<close>; a function
  returning \<^verbatim>\<open>(T, error)\<close> returns \<open>error + T\<close> with \<open>Inl\<close> the error.
  A Go \<^verbatim>\<open>map[string]string\<close> is a map \<open>string \<rightharpoonup> string\<close>; reading a missing key
  gives the empty string, as in Go. A Go map used as a set and then ranged over is a
  duplicate-free list in insertion order: Go leaves the iteration order open, so the
  theorems about such lists speak of their sets of elements.
  \<^verbatim>\<open>time.Duration\<close> is an \<open>int\<close> counting nanoseconds.
  Calls that leave the process (the control-plane client, the data-plane client, the
  random source) are functions of an explicit state or fields of a record of outcomes.
\<close>

section \<open>Data model\<close>

datatype error =
    NotFound string
  | AlreadyExists string
  | ApiError string
  | Errorf string "error option"

fun IsNotFound :: "error \<Rightarrow> bool" where
  "IsNotFound (NotFound _) = True"
| "IsNotFound _ = False"

fun IsAlreadyExists :: "error \<Rightarrow> bool" where
  "IsAlreadyExists (AlreadyExists _) = True"
| "IsAlreadyExists _ = False"

record GroupVersionKind =
  Group :: string
  Version :: string
  Kind :: string

text \<open>
  \<^verbatim>\<open>unstructured.Unstructured\<close>: what \<^verbatim>\<open>GroupVersionKind()\<close>,
  \<^verbatim>\<open>GetName()\<close> and \<^verbatim>\<open>GetNamespace()\<close> return, and the field
  \<^verbatim>\<open>metadata.labels\<close> of the document. A decoded document may hold any JSON
  value under a label key: \<open>metadata_labels\<close> holds the entries whose value is a
  string, \<open>nonStringLabels\<close> the keys whose value is not. A field that is
  absent, or that is not a JSON object, holds no label: it is the empty map.
\<close>

record Unstructured =
  GVK :: GroupVersionKind
  GetName :: string
  GetNamespace :: string
  metadata_labels :: "string \<rightharpoonup> string"
  nonStringLabels :: "string list"

text \<open>
  \<^verbatim>\<open>GetLabels()\<close> reads the field with \<^verbatim>\<open>NestedStringMap\<close>, which gives up at
  the first value that is not a string: the result is then nil.
  \<^verbatim>\<open>SetLabels(labels)\<close> replaces the whole field by the given string map.
\<close>

definition GetLabels :: "Unstructured \<Rightarrow> (string \<rightharpoonup> string)" where
  "GetLabels obj = (if nonStringLabels obj = [] then metadata_labels obj else Map.empty)"

definition SetLabels :: "Unstructured \<Rightarrow> (string \<rightharpoonup> string) \<Rightarrow> Unstructured" where
  "SetLabels obj labels = obj\<lparr>metadata_labels := labels, nonStringLabels := []\<rparr>"

text \<open>\<^verbatim>\<open>obj.GetLabels()[key]\<close>: a missing key reads as the empty string.\<close>

definition label :: "Unstructured \<Rightarrow> string \<Rightarrow> string" where
  "label obj k = (case GetLabels obj k of None \<Rightarrow> [] | Some v \<Rightarrow> v)"

record ResourceStatus =
  rs_ID :: string
  rs_Group :: string
  rs_Version :: string
  rs_Kind :: string
  rs_Name :: string
  rs_Namespace :: string

text \<open>An entry of \<^verbatim>\<open>Release.Spec.Resources\<close>: the ID and the raw JSON document.\<close>

record Resource =
  res_ID :: string
  res_Object :: string

record Condition =
  cond_Type :: string
  cond_Status :: string
  cond_Reason :: string
  cond_Message :: string
  cond_ObservedGeneration :: int

record ReleaseSpec =
  EnvironmentName :: string
  Owner_ProjectName :: string
  Resources :: "Resource list"
  Interval :: "int option"
  ProgressingInterval :: "int option"

record ReleaseStatus =
  status_Resources :: "ResourceStatus list"
  Conditions :: "Condition list"

record Release =
  Name :: string
  Namespace :: string
  UID :: string
  Generation :: int
  DeletionTimestamp :: "int option"
  Finalizers :: "string list"
  Spec :: ReleaseSpec
  Status :: ReleaseStatus

text \<open>
  Declarations the controller uses whose source is not part of the files at hand
  (package \<^verbatim>\<open>internal/labels\<close>, the condition constructors, \<^verbatim>\<open>updateStatus\<close>,
  \<^verbatim>\<open>hasTransitioningResources\<close>), and library calls whose result the controller
  only branches on (JSON decoding, selector construction, \<^verbatim>\<open>rand.Intn\<close>).
  They are parameters of the model.
\<close>

record deps =
  LabelKeyManagedBy :: string
  LabelKeyReleaseResourceID :: string
  LabelKeyReleaseUID :: string
  LabelKeyReleaseName :: string
  LabelKeyReleaseNamespace :: string
  LabelKeyCreatedBy :: string
  LabelKeyEnvironmentName :: string
  LabelKeyProjectName :: string
  UnmarshalJSON :: "string \<Rightarrow> error + Unstructured"
  LabelSelectorAsSelector :: "(string \<times> string) list \<Rightarrow> error + (string \<times> string) list"
  NewReleaseFinalizingCondition :: "int \<Rightarrow> Condition"
  NewReleaseCleanupFailedCondition :: "int \<Rightarrow> error \<Rightarrow> Condition"
  updateStatus :: "Release \<Rightarrow> Release \<Rightarrow> Unstructured list \<Rightarrow> Unstructured list
                     \<Rightarrow> Release \<times> bool \<times> error option"
  hasTransitioningResources :: "ResourceStatus list \<Rightarrow> bool"
  rand_Intn :: "int \<Rightarrow> int"

definition ControllerName :: string where
  "ControllerName = ''release-controller''"

definition DataPlaneCleanupFinalizer :: string where
  "DataPlaneCleanupFinalizer = ''openchoreo.dev/dataplane-cleanup''"

section \<open>The remote cluster and the control plane\<close>

text \<open>
  The data plane behind \<^verbatim>\<open>dpClient\<close>: the objects it holds, and for every call the
  error the API server answers with, if any. Two objects are the same resource when
  kind, namespace and name agree. An object that \<open>lingers\<close> stays on the cluster
  after its deletion was accepted (it has finalizers of its own). \<open>deleteCalls\<close> is
  the record of the \<^verbatim>\<open>Delete\<close> calls made so far, each with the answer it got.
\<close>

record cluster =
  objects :: "Unstructured list"
  listErr :: "GroupVersionKind \<Rightarrow> error option"
  deleteErr :: "Unstructured \<Rightarrow> error option"
  lingers :: "Unstructured \<Rightarrow> bool"
  deleteCalls :: "(Unstructured \<times> error option) list"
  patchErr :: "Unstructured \<Rightarrow> error option"
  getErr :: "string \<Rightarrow> error option"
  createErr :: "string \<Rightarrow> error option"

definition sameResource :: "Unstructured \<Rightarrow> Unstructured \<Rightarrow> bool" where
  "sameResource a b \<longleftrightarrow>
     GVK a = GVK b \<and> GetNamespace a = GetNamespace b \<and> GetName a = GetName b"

definition matchesSelector :: "(string \<times> string) list \<Rightarrow> Unstructured \<Rightarrow> bool" where
  "matchesSelector sel obj = list_all (\<lambda>(k, v). GetLabels obj k = Some v) sel"

text \<open>\<^verbatim>\<open>dpClient.List\<close> of one kind with a label selector.\<close>

definition dpList ::
  "cluster \<Rightarrow> GroupVersionKind \<Rightarrow> (string \<times> string) list \<Rightarrow> error + Unstructured list" where
  "dpList c gvk sel =
     (case listErr c gvk of
        Some e \<Rightarrow> Inl e
      | None \<Rightarrow> Inr (filter (\<lambda>obj. GVK obj = gvk \<and> matchesSelector sel obj) (objects c)))"

text \<open>
  \<^verbatim>\<open>dpClient.Delete\<close>: an accepted call removes the resource, unless it lingers;
  deleting what is not there is a not-found error. Every call is recorded with its
  answer.
\<close>

definition deleteAnswer :: "cluster \<Rightarrow> Unstructured \<Rightarrow> error option" where
  "deleteAnswer c obj =
     (case deleteErr c obj of
        Some e \<Rightarrow> Some e
      | None \<Rightarrow>
          if list_ex (sameResource obj) (objects c) then None
          else Some (NotFound (GetName obj)))"

definition dpDelete :: "cluster \<Rightarrow> Unstructured \<Rightarrow> error option \<times> cluster" where
  "dpDelete c obj =
     (case deleteAnswer c obj of
        Some e \<Rightarrow> (Some e, c\<lparr>deleteCalls := deleteCalls c @ [(obj, Some e)]\<rparr>)
      | None \<Rightarrow>
          (None,
           c\<lparr>objects := (if lingers c obj then objects c
                          else filter (\<lambda>x. \<not> sameResource obj x) (objects c)),
             deleteCalls := deleteCalls c @ [(obj, None)]\<rparr>))"

text \<open>\<^verbatim>\<open>dpClient.Patch\<close> with \<^verbatim>\<open>client.Apply\<close>: create or replace.\<close>

definition dpApply :: "cluster \<Rightarrow> Unstructured \<Rightarrow> error option \<times> cluster" where
  "dpApply c obj =
     (case patchErr c obj of
        Some e \<Rightarrow> (Some e, c)
      | None \<Rightarrow>
          (None, c\<lparr>objects := filter (\<lambda>x. \<not> sameResource obj x) (objects c) @ [obj]\<rparr>))"

definition NamespaceGVK :: GroupVersionKind where
  "NamespaceGVK = \<lparr>Group = [], Version = ''v1'', Kind = ''Namespace''\<rparr>"

definition dpGetNamespace :: "cluster \<Rightarrow> string \<Rightarrow> error option" where
  "dpGetNamespace c n =
     (case getErr c n of
        Some e \<Rightarrow> Some e
      | None \<Rightarrow>
          if list_ex (\<lambda>x. GVK x = NamespaceGVK \<and> GetName x = n) (objects c)
          then None else Some (NotFound n))"

definition dpCreateNamespace :: "cluster \<Rightarrow> Unstructured \<Rightarrow> error option \<times> cluster" where
  "dpCreateNamespace c ns =
     (case createErr c (GetName ns) of
        Some e \<Rightarrow> (Some e, c)
      | None \<Rightarrow>
          if list_ex (\<lambda>x. GVK x = NamespaceGVK \<and> GetName x = GetName ns) (objects c)
          then (Some (AlreadyExists (GetName ns)), c)
          else (None, c\<lparr>objects := objects c @ [ns]\<rparr>))"

text \<open>
  The control plane behind \<^verbatim>\<open>r.Client\<close> and the client manager: what each call
  of one invocation answers.
\<close>

record DataPlane =
  dp_Name :: string
  dp_Namespace :: string

record control_plane =
  GetEnvironment :: "string \<Rightarrow> string \<Rightarrow> error + string"
  GetDataPlane :: "string \<Rightarrow> string \<Rightarrow> error + DataPlane"
  GetK8sClient :: "string \<Rightarrow> string \<Rightarrow> error option"
  Update :: "Release \<Rightarrow> error option"
  UpdateStatusConditions :: "Release \<Rightarrow> Release \<Rightarrow> error option"

text \<open>
  What one invocation leaves behind: the \<^verbatim>\<open>ctrl.Result\<close> (its \<^verbatim>\<open>RequeueAfter\<close>),
  the returned error, the Release as the control plane stores it afterwards, and the
  data plane.
\<close>

record pass =
  RequeueAfter :: int
  err :: "error option"
  stored :: Release
  dataplane :: cluster

section \<open>controller.go\<close>

definition getDPClient :: "control_plane \<Rightarrow> string \<Rightarrow> string \<Rightarrow> error option" where
  "getDPClient cp orgName environmentName =
     (case GetEnvironment cp orgName environmentName of
        Inl e \<Rightarrow> Some (Errorf (''failed to get environment '' @ environmentName) (Some e))
      | Inr dataPlaneRef \<Rightarrow>
          (case GetDataPlane cp orgName dataPlaneRef of
             Inl e \<Rightarrow>
               Some (Errorf (''failed to get dataplane '' @ dataPlaneRef
                               @ '' for environment '' @ environmentName) (Some e))
           | Inr dp \<Rightarrow>
               (case GetK8sClient cp (dp_Namespace dp) (dp_Name dp) of
                  Some e \<Rightarrow>
                    Some (Errorf (''failed to create dataplane client for '' @ dp_Name dp) (Some e))
                | None \<Rightarrow> None)))"

fun applyResources :: "deps \<Rightarrow> cluster \<Rightarrow> Unstructured list \<Rightarrow> error option \<times> cluster" where
  "applyResources D c [] = (None, c)"
| "applyResources D c (obj # resources) =
     (case dpApply c obj of
        (Some e, c') \<Rightarrow>
          (Some (Errorf (''failed to apply resource ''
                           @ label obj (LabelKeyReleaseResourceID D)) (Some e)), c')
      | (None, c') \<Rightarrow> applyResources D c' resources)"

text \<open>
  The five assignments to \<^verbatim>\<open>resourceLabels\<close>, in the order of the source.
  \<open>resourceLabels\<close> is what \<^verbatim>\<open>GetLabels()\<close> returned, a nil map standing for the
  empty one that replaces it.
\<close>

definition addTrackingLabels ::
  "deps \<Rightarrow> Release \<Rightarrow> string \<Rightarrow> (string \<rightharpoonup> string) \<Rightarrow> (string \<rightharpoonup> string)" where
  "addTrackingLabels D release resourceID resourceLabels =
     resourceLabels
       (LabelKeyManagedBy D \<mapsto> ControllerName,
        LabelKeyReleaseResourceID D \<mapsto> resourceID,
        LabelKeyReleaseUID D \<mapsto> UID release,
        LabelKeyReleaseName D \<mapsto> Name release,
        LabelKeyReleaseNamespace D \<mapsto> Namespace release)"

fun makeDesiredLoop :: "deps \<Rightarrow> Release \<Rightarrow> Resource list \<Rightarrow> error + Unstructured list" where
  "makeDesiredLoop D release [] = Inr []"
| "makeDesiredLoop D release (resource # rest) =
     (case UnmarshalJSON D (res_Object resource) of
        Inl e \<Rightarrow> Inl (Errorf (''failed to unmarshal resource '' @ res_ID resource) (Some e))
      | Inr obj \<Rightarrow>
          (case makeDesiredLoop D release rest of
             Inl e \<Rightarrow> Inl e
           | Inr objs \<Rightarrow>
               Inr (SetLabels obj
                      (addTrackingLabels D release (res_ID resource) (GetLabels obj)) # objs)))"

definition makeDesiredResources :: "deps \<Rightarrow> Release \<Rightarrow> error + Unstructured list" where
  "makeDesiredResources D release = makeDesiredLoop D release (Resources (Spec release))"

text \<open>\<^verbatim>\<open>set[k] = true\<close> on a Go map used as a set.\<close>

definition setTrue :: "'a \<Rightarrow> 'a list \<Rightarrow> 'a list" where
  "setTrue k s = (if k \<in> set s then s else s @ [k])"

definition makeDesiredNamespaces :: "deps \<Rightarrow> Release \<Rightarrow> Unstructured list \<Rightarrow> Unstructured list" where
  "makeDesiredNamespaces D release resources =
     map (\<lambda>namespaceName.
            \<lparr>GVK = NamespaceGVK, GetName = namespaceName, GetNamespace = [],
             metadata_labels = [LabelKeyCreatedBy D \<mapsto> ControllerName,
                          LabelKeyReleaseName D \<mapsto> Name release,
                          LabelKeyReleaseNamespace D \<mapsto> Namespace release,
                          LabelKeyReleaseUID D \<mapsto> UID release,
                          LabelKeyEnvironmentName D \<mapsto> EnvironmentName (Spec release),
                          LabelKeyProjectName D \<mapsto> Owner_ProjectName (Spec release)],
             nonStringLabels = []\<rparr>)
         (fold (\<lambda>obj s. if GetNamespace obj \<noteq> [] then setTrue (GetNamespace obj) s else s)
               resources [])"

fun ensureNamespaces :: "cluster \<Rightarrow> Unstructured list \<Rightarrow> error option \<times> cluster" where
  "ensureNamespaces c [] = (None, c)"
| "ensureNamespaces c (ns # namespaces) =
     (case dpGetNamespace c (GetName ns) of
        None \<Rightarrow> ensureNamespaces c namespaces
      | Some e \<Rightarrow>
          if \<not> IsNotFound e
          then (Some (Errorf (''failed to check namespace '' @ GetName ns) (Some e)), c)
          else
            (case dpCreateNamespace c ns of
               (None, c') \<Rightarrow> ensureNamespaces c' namespaces
             | (Some ce, c') \<Rightarrow>
                 if IsAlreadyExists ce then ensureNamespaces c' namespaces
                 else (Some (Errorf (''failed to create namespace '' @ GetName ns) (Some ce)), c')))"

text \<open>
  \<^verbatim>\<open>findStaleResources\<close>: first the set of desired resource IDs (empty IDs are
  left out), then the live resources with a non-empty ID that is not in it.
\<close>

definition desiredResourceIDs :: "deps \<Rightarrow> Unstructured list \<Rightarrow> string list" where
  "desiredResourceIDs D desiredResources =
     fold (\<lambda>obj s.
             let resourceID = label obj (LabelKeyReleaseResourceID D)
             in if resourceID \<noteq> [] then setTrue resourceID s else s)
          desiredResources []"

definition findStaleResources ::
  "deps \<Rightarrow> Unstructured list \<Rightarrow> Unstructured list \<Rightarrow> Unstructured list" where
  "findStaleResources D liveResources desiredResources =
     (let ids = desiredResourceIDs D desiredResources
      in filter (\<lambda>liveObj.
                   let liveResourceID = label liveObj (LabelKeyReleaseResourceID D)
                   in liveResourceID \<noteq> [] \<and> liveResourceID \<notin> set ids)
                liveResources)"

fun deleteResources :: "deps \<Rightarrow> cluster \<Rightarrow> Unstructured list \<Rightarrow> error option \<times> cluster" where
  "deleteResources D c [] = (None, c)"
| "deleteResources D c (obj # staleResources) =
     (case dpDelete c obj of
        (Some e, c') \<Rightarrow>
          (Some (Errorf (''failed to delete stale resource ''
                           @ label obj (LabelKeyReleaseResourceID D)) (Some e)), c')
      | (None, c') \<Rightarrow> deleteResources D c' staleResources)"

definition wellKnownGVKs :: "GroupVersionKind list" where
  "wellKnownGVKs =
    [\<lparr>Group = [], Version = ''v1'', Kind = ''Service''\<rparr>,
     \<lparr>Group = [], Version = ''v1'', Kind = ''ConfigMap''\<rparr>,
     \<lparr>Group = [], Version = ''v1'', Kind = ''Secret''\<rparr>,
     \<lparr>Group = [], Version = ''v1'', Kind = ''ServiceAccount''\<rparr>,
     \<lparr>Group = [], Version = ''v1'', Kind = ''Namespace''\<rparr>,
     \<lparr>Group = [], Version = ''v1'', Kind = ''PersistentVolumeClaim''\<rparr>,
     \<lparr>Group = ''apps'', Version = ''v1'', Kind = ''Deployment''\<rparr>,
     \<lparr>Group = ''apps'', Version = ''v1'', Kind = ''StatefulSet''\<rparr>,
     \<lparr>Group = ''batch'', Version = ''v1'', Kind = ''Job''\<rparr>,
     \<lparr>Group = ''batch'', Version = ''v1'', Kind = ''CronJob''\<rparr>,
     \<lparr>Group = ''autoscaling'', Version = ''v2'', Kind = ''HorizontalPodAutoscaler''\<rparr>,
     \<lparr>Group = ''policy'', Version = ''v1'', Kind = ''PodDisruptionBudget''\<rparr>,
     \<lparr>Group = ''networking.k8s.io'', Version = ''v1'', Kind = ''NetworkPolicy''\<rparr>,
     \<lparr>Group = ''networking.k8s.io'', Version = ''v1'', Kind = ''Ingress''\<rparr>,
     \<lparr>Group = ''rbac.authorization.k8s.io'', Version = ''v1'', Kind = ''Role''\<rparr>,
     \<lparr>Group = ''rbac.authorization.k8s.io'', Version = ''v1'', Kind = ''RoleBinding''\<rparr>,
     \<lparr>Group = ''rbac.authorization.k8s.io'', Version = ''v1'', Kind = ''ClusterRole''\<rparr>,
     \<lparr>Group = ''rbac.authorization.k8s.io'', Version = ''v1'', Kind = ''ClusterRoleBinding''\<rparr>,
     \<lparr>Group = ''gateway.networking.k8s.io'', Version = ''v1'', Kind = ''HTTPRoute''\<rparr>,
     \<lparr>Group = ''gateway.networking.k8s.io'', Version = ''v1'', Kind = ''Gateway''\<rparr>,
     \<lparr>Group = ''gateway.envoyproxy.io'', Version = ''v1alpha1'', Kind = ''SecurityPolicy''\<rparr>,
     \<lparr>Group = ''gateway.envoyproxy.io'', Version = ''v1alpha1'', Kind = ''BackendTrafficPolicy''\<rparr>,
     \<lparr>Group = ''gateway.envoyproxy.io'', Version = ''v1alpha1'', Kind = ''HTTPRouteFilter''\<rparr>,
     \<lparr>Group = ''cilium.io'', Version = ''v2'', Kind = ''CiliumNetworkPolicy''\<rparr>,
     \<lparr>Group = ''secrets-store.csi.x-k8s.io'', Version = ''v1'', Kind = ''SecretProviderClass''\<rparr>]"

text \<open>
  \<^verbatim>\<open>findAllKnownGVKs\<close>, statement by statement: the set is filled from the desired
  documents and from the status inventory; the slice \<open>gvks\<close> is built from the set;
  the well-known kinds are then added to the set; the slice is returned.
\<close>

definition findAllKnownGVKs ::
  "Unstructured list \<Rightarrow> ResourceStatus list \<Rightarrow> GroupVersionKind list" where
  "findAllKnownGVKs desiredResources appliedResources =
     (let gvkSet0 = fold (\<lambda>obj s. setTrue (GVK obj) s) desiredResources [];
          gvkSet1 = fold (\<lambda>appliedResource s.
                            setTrue \<lparr>Group = rs_Group appliedResource,
                                     Version = rs_Version appliedResource,
                                     Kind = rs_Kind appliedResource\<rparr> s)
                         appliedResources gvkSet0;
          gvks = gvkSet1;
          gvkSet2 = fold setTrue wellKnownGVKs gvkSet1
      in gvks)"

text \<open>
  \<^verbatim>\<open>listLiveResourcesByGVKs\<close>: a failed \<^verbatim>\<open>List\<close> is logged and the loop continues
  with the next kind; only a failed selector construction ends the loop with an error.
\<close>

fun listLiveLoop ::
  "deps \<Rightarrow> cluster \<Rightarrow> Release \<Rightarrow> GroupVersionKind list \<Rightarrow> Unstructured list
     \<Rightarrow> error + Unstructured list" where
  "listLiveLoop D c release [] allLiveResources = Inr allLiveResources"
| "listLiveLoop D c release (gvk # gvks) allLiveResources =
     (case LabelSelectorAsSelector D
             [(LabelKeyManagedBy D, ControllerName), (LabelKeyReleaseUID D, UID release)] of
        Inl e \<Rightarrow> Inl (Errorf ''failed to create label selector'' (Some e))
      | Inr selector \<Rightarrow>
          (case dpList c gvk selector of
             Inl e \<Rightarrow> listLiveLoop D c release gvks allLiveResources
           | Inr items \<Rightarrow> listLiveLoop D c release gvks (allLiveResources @ items)))"

definition listLiveResourcesByGVKs ::
  "deps \<Rightarrow> cluster \<Rightarrow> Release \<Rightarrow> GroupVersionKind list \<Rightarrow> error + Unstructured list" where
  "listLiveResourcesByGVKs D c release gvks = listLiveLoop D c release gvks []"

text \<open>
  The jitter bound \<^verbatim>\<open>time.Duration(float64(baseInterval) * 0.2)\<close>, in exact
  integer arithmetic. \<open>round53\<close> rounds a non-negative integer to 53 significant bits,
  ties to even, which is what IEEE 754 double precision does to the conversion of an
  \<^verbatim>\<open>int64\<close> and to a product. The constant \<^verbatim>\<open>0.2\<close> is the double
  \<open>7205759403792794 / 2 ^ 55\<close>. The conversion back to \<^verbatim>\<open>time.Duration\<close>
  truncates towards zero. Durations are \<^verbatim>\<open>int64\<close>: sums wrap around.
  \<^verbatim>\<open>int\<close> is taken to be 64 bits wide, so that \<^verbatim>\<open>int(maxJitter)\<close> keeps the
  value.
\<close>

function bitlen :: "int \<Rightarrow> nat" where
  "bitlen n = (if n \<le> 0 then 0 else Suc (bitlen (n div 2)))"
  by pat_completeness auto
termination
  by (relation "measure nat") auto

declare bitlen.simps [simp del]

definition round53 :: "int \<Rightarrow> int" where
  "round53 m =
     (if bitlen m \<le> 53 then m
      else
        let s = bitlen m - 53; q = m div 2 ^ s; r = m mod 2 ^ s; h = 2 ^ (s - 1)
        in (if h < r \<or> (r = h \<and> odd q) then q + 1 else q) * 2 ^ s)"

definition float64_of_int64 :: "int \<Rightarrow> int" where
  "float64_of_int64 x = sgn x * round53 \<bar>x\<bar>"

text \<open>The product with the double nearest to 0.2, as a numerator over \<open>2 ^ 55\<close>.\<close>

definition float64_mul_0_2 :: "int \<Rightarrow> int" where
  "float64_mul_0_2 f = sgn f * round53 (\<bar>f\<bar> * 7205759403792794)"

definition Duration_of_float64 :: "int \<Rightarrow> int" where
  "Duration_of_float64 n = sgn n * (\<bar>n\<bar> div 2 ^ 55)"

definition wrap64 :: "int \<Rightarrow> int" where
  "wrap64 x = (x + 2 ^ 63) mod 2 ^ 64 - 2 ^ 63"

definition jitterMaxOf :: "int \<Rightarrow> int" where
  "jitterMaxOf baseInterval = Duration_of_float64 (float64_mul_0_2 (float64_of_int64 baseInterval))"

definition Second :: int where
  "Second = 1000000000"

definition Minute :: int where
  "Minute = 60 * Second"

definition addJitter :: "deps \<Rightarrow> int \<Rightarrow> int \<Rightarrow> int" where
  "addJitter D base maxJitter =
     (if maxJitter \<le> 0 then base
      else let jitter = rand_Intn D maxJitter in wrap64 (base + jitter))"

definition getStableRequeueInterval :: "deps \<Rightarrow> Release \<Rightarrow> int" where
  "getStableRequeueInterval D release =
     (let baseInterval = (case Interval (Spec release) of None \<Rightarrow> 5 * Minute | Some d \<Rightarrow> d)
      in if Interval (Spec release) \<noteq> None \<and> baseInterval = 0 then 0
         else addJitter D baseInterval (jitterMaxOf baseInterval))"

definition getProgressingRequeueInterval :: "deps \<Rightarrow> Release \<Rightarrow> int" where
  "getProgressingRequeueInterval D release =
     (let baseInterval =
            (case ProgressingInterval (Spec release) of None \<Rightarrow> 10 * Second | Some d \<Rightarrow> d)
      in if ProgressingInterval (Spec release) \<noteq> None \<and> baseInterval = 0 then 0
         else addJitter D baseInterval (jitterMaxOf baseInterval))"

section \<open>controller_finalize.go\<close>

text \<open>
  \<^verbatim>\<open>controllerutil.ContainsFinalizer\<close>, \<^verbatim>\<open>AddFinalizer\<close> and
  \<^verbatim>\<open>RemoveFinalizer\<close>; the last two also say whether the list changed.
\<close>

definition ContainsFinalizer :: "Release \<Rightarrow> string \<Rightarrow> bool" where
  "ContainsFinalizer release f \<longleftrightarrow> f \<in> set (Finalizers release)"

definition AddFinalizer :: "Release \<Rightarrow> string \<Rightarrow> Release \<times> bool" where
  "AddFinalizer release f =
     (if f \<in> set (Finalizers release) then (release, False)
      else (release\<lparr>Finalizers := Finalizers release @ [f]\<rparr>, True))"

definition RemoveFinalizer :: "Release \<Rightarrow> string \<Rightarrow> Release \<times> bool" where
  "RemoveFinalizer release f =
     (release\<lparr>Finalizers := filter (\<lambda>x. x \<noteq> f) (Finalizers release)\<rparr>,
      f \<in> set (Finalizers release))"

text \<open>
  \<^verbatim>\<open>meta.SetStatusCondition\<close>: appends a condition of a new type; otherwise
  overwrites the first condition of that type and reports whether status, reason,
  message or observed generation changed.
\<close>

fun replaceCondition :: "Condition list \<Rightarrow> Condition \<Rightarrow> Condition list" where
  "replaceCondition [] n = []"
| "replaceCondition (c # cs) n =
     (if cond_Type c = cond_Type n then n # cs else c # replaceCondition cs n)"

definition SetStatusCondition :: "Condition list \<Rightarrow> Condition \<Rightarrow> Condition list \<times> bool" where
  "SetStatusCondition conditions newCondition =
     (case find (\<lambda>c. cond_Type c = cond_Type newCondition) conditions of
        None \<Rightarrow> (conditions @ [newCondition], True)
      | Some existingCondition \<Rightarrow>
          (replaceCondition conditions newCondition,
           cond_Status existingCondition \<noteq> cond_Status newCondition
           \<or> cond_Reason existingCondition \<noteq> cond_Reason newCondition
           \<or> cond_Message existingCondition \<noteq> cond_Message newCondition
           \<or> cond_ObservedGeneration existingCondition \<noteq> cond_ObservedGeneration newCondition))"

definition setConditions :: "Release \<Rightarrow> Condition list \<Rightarrow> Release" where
  "setConditions release cs = release\<lparr>Status := (Status release)\<lparr>Conditions := cs\<rparr>\<rparr>"

text \<open>
  \<^verbatim>\<open>DeletionTimestamp.IsZero()\<close>: the timestamp is \<open>None\<close> when it is not set
  (a nil pointer, or the zero time).
\<close>

definition IsZero :: "int option \<Rightarrow> bool" where
  "IsZero t \<longleftrightarrow> t = None"

definition ensureFinalizer :: "control_plane \<Rightarrow> Release \<Rightarrow> Release \<times> bool \<times> error option" where
  "ensureFinalizer cp release =
     (if \<not> IsZero (DeletionTimestamp release) then (release, False, None)
      else
        (case AddFinalizer release DataPlaneCleanupFinalizer of
           (release', True) \<Rightarrow> (release', True, Update cp release')
         | (release', False) \<Rightarrow> (release', False, None)))"

text \<open>
  The three failure exits of \<^verbatim>\<open>finalize\<close> share one shape: record the
  cleanup-failed condition, write the status, return the update error or the wrapped
  cause.
\<close>

definition cleanupFailed ::
  "deps \<Rightarrow> control_plane \<Rightarrow> cluster \<Rightarrow> Release \<Rightarrow> Release \<Rightarrow> string \<Rightarrow> error \<Rightarrow> pass" where
  "cleanupFailed D cp c old release msg e =
     (let release' = setConditions release
            (fst (SetStatusCondition (Conditions (Status release))
                    (NewReleaseCleanupFailedCondition D (Generation release) e)))
      in case UpdateStatusConditions cp old release' of
           Some updateErr \<Rightarrow>
             \<lparr>RequeueAfter = 0, err = Some updateErr, stored = old, dataplane = c\<rparr>
         | None \<Rightarrow>
             \<lparr>RequeueAfter = 0, err = Some (Errorf msg (Some e)), stored = release',
              dataplane = c\<rparr>)"

definition finalize :: "deps \<Rightarrow> control_plane \<Rightarrow> cluster \<Rightarrow> Release \<Rightarrow> Release \<Rightarrow> pass" where
  "finalize D cp c old release =
     (if \<not> ContainsFinalizer release DataPlaneCleanupFinalizer
      then \<lparr>RequeueAfter = 0, err = None, stored = old, dataplane = c\<rparr>
      else
        case SetStatusCondition (Conditions (Status release))
               (NewReleaseFinalizingCondition D (Generation release)) of
          (conds, True) \<Rightarrow>
            (case UpdateStatusConditions cp old (setConditions release conds) of
               Some e \<Rightarrow> \<lparr>RequeueAfter = 0, err = Some e, stored = old, dataplane = c\<rparr>
             | None \<Rightarrow>
                 \<lparr>RequeueAfter = 0, err = None, stored = setConditions release conds,
                  dataplane = c\<rparr>)
        | (conds, False) \<Rightarrow>
            (let release = setConditions release conds in
             case getDPClient cp (Namespace release) (EnvironmentName (Spec release)) of
               Some e \<Rightarrow>
                 cleanupFailed D cp c old release
                   ''failed to get dataplane client for finalization'' e
             | None \<Rightarrow>
                 (let gvks = findAllKnownGVKs [] (status_Resources (Status release)) in
                  case listLiveResourcesByGVKs D c release gvks of
                    Inl e \<Rightarrow>
                      cleanupFailed D cp c old release
                        ''failed to list live resources for cleanup'' e
                  | Inr liveResources \<Rightarrow>
                      (case deleteResources D c liveResources of
                         (Some e, c') \<Rightarrow>
                           cleanupFailed D cp c' old release
                             ''failed to delete resources during finalization'' e
                       | (None, c') \<Rightarrow>
                           if length liveResources > 0
                           then \<lparr>RequeueAfter = 5 * Second, err = None, stored = old,
                                 dataplane = c'\<rparr>
                           else
                             (case RemoveFinalizer release DataPlaneCleanupFinalizer of
                                (release', True) \<Rightarrow>
                                  (case Update cp release' of
                                     Some e \<Rightarrow>
                                       \<lparr>RequeueAfter = 0, err = Some e, stored = old,
                                        dataplane = c'\<rparr>
                                   | None \<Rightarrow>
                                       \<lparr>RequeueAfter = 0, err = None, stored = release',
                                        dataplane = c'\<rparr>)
                              | (release', False) \<Rightarrow>
                                  \<lparr>RequeueAfter = 0, err = None, stored = old,
                                   dataplane = c'\<rparr>)))))"

section \<open>Reconcile\<close>

text \<open>
  \<^verbatim>\<open>Reconcile\<close> is one function in the source; here it is cut at its phase
  comments into three definitions, each ending in the next. \<open>reconcileRequeue\<close> is
  phase 4 and the choice of the requeue interval, \<open>reconcileDiscover\<close> is phases 2
  and 3, \<open>reconcileApply\<close> is everything from \<^verbatim>\<open>ensureFinalizer\<close> to phase 1.
\<close>

definition reconcileRequeue ::
  "deps \<Rightarrow> cluster \<Rightarrow> Release \<Rightarrow> Release \<Rightarrow> Unstructured list \<Rightarrow> Unstructured list \<Rightarrow> pass" where
  "reconcileRequeue D c old release desiredResources liveResources =
     (case updateStatus D old release desiredResources liveResources of
        (release', statusUpdated, e) \<Rightarrow>
          (if e \<noteq> None \<or> statusUpdated
           then \<lparr>RequeueAfter = 0, err = e,
                 stored = (if e = None then release' else old), dataplane = c\<rparr>
           else if hasTransitioningResources D (status_Resources (Status release'))
           then \<lparr>RequeueAfter = getProgressingRequeueInterval D release', err = None,
                 stored = old, dataplane = c\<rparr>
           else \<lparr>RequeueAfter = getStableRequeueInterval D release', err = None,
                 stored = old, dataplane = c\<rparr>))"

definition reconcileDiscover ::
  "deps \<Rightarrow> cluster \<Rightarrow> Release \<Rightarrow> Release \<Rightarrow> Unstructured list \<Rightarrow> pass" where
  "reconcileDiscover D c old release desiredResources =
     (let gvks = findAllKnownGVKs desiredResources (status_Resources (Status release)) in
      case listLiveResourcesByGVKs D c release gvks of
        Inl e \<Rightarrow> \<lparr>RequeueAfter = 0, err = Some e, stored = old, dataplane = c\<rparr>
      | Inr liveResources \<Rightarrow>
          (let staleResources = findStaleResources D liveResources desiredResources in
           case deleteResources D c staleResources of
             (Some e, c') \<Rightarrow> \<lparr>RequeueAfter = 0, err = Some e, stored = old, dataplane = c'\<rparr>
           | (None, c') \<Rightarrow>
               reconcileRequeue D c' old release desiredResources liveResources))"

definition reconcileApply ::
  "deps \<Rightarrow> control_plane \<Rightarrow> cluster \<Rightarrow> Release \<Rightarrow> Release \<Rightarrow> pass" where
  "reconcileApply D cp c old release0 =
     (case ensureFinalizer cp release0 of
        (release, finalizerAdded, e) \<Rightarrow>
          (if e \<noteq> None \<or> finalizerAdded
           then \<lparr>RequeueAfter = 0, err = e,
                 stored = (if e = None then release else old), dataplane = c\<rparr>
           else
             (case getDPClient cp (Namespace release) (EnvironmentName (Spec release)) of
                Some e \<Rightarrow> \<lparr>RequeueAfter = 0, err = Some e, stored = old, dataplane = c\<rparr>
              | None \<Rightarrow>
                  (case makeDesiredResources D release of
                     Inl e \<Rightarrow> \<lparr>RequeueAfter = 0, err = Some e, stored = old, dataplane = c\<rparr>
                   | Inr desiredResources \<Rightarrow>
                       (case ensureNamespaces c
                               (makeDesiredNamespaces D release desiredResources) of
                          (Some e, c1) \<Rightarrow>
                            \<lparr>RequeueAfter = 0, err = Some e, stored = old, dataplane = c1\<rparr>
                        | (None, c1) \<Rightarrow>
                            (case applyResources D c1 desiredResources of
                               (Some e, c2) \<Rightarrow>
                                 \<lparr>RequeueAfter = 0, err = Some e, stored = old,
                                  dataplane = c2\<rparr>
                             | (None, c2) \<Rightarrow>
                                 reconcileDiscover D c2 old release desiredResources))))))"

text \<open>
  \<open>got\<close> is the answer of \<^verbatim>\<open>r.Get\<close> for the requested Release. Where the fetch
  fails the invocation returns before it touches anything (\<open>Inl\<close>: the requeue delay
  and the error); otherwise the result is a \<open>pass\<close>.
\<close>

definition Reconcile ::
  "deps \<Rightarrow> control_plane \<Rightarrow> cluster \<Rightarrow> error + Release \<Rightarrow> (int \<times> error option) + pass" where
  "Reconcile D cp c got =
     (case got of
        Inl e \<Rightarrow> if IsNotFound e then Inl (0, None) else Inl (0, Some e)
      | Inr release \<Rightarrow>
          Inr (if \<not> IsZero (DeletionTimestamp release) then finalize D cp c release release
               else reconcileApply D cp c release release))"

section \<open>trait.go: the evaluation context of a trait\<close>

text \<open>
  A decoded JSON value (\<^verbatim>\<open>any\<close>); a \<^verbatim>\<open>map[string]any\<close> is an association
  list with one entry per key.
\<close>

datatype json =
    JNull
  | JBool bool
  | JNum int
  | JStr string
  | JArr "json list"
  | JObj "(string \<times> json) list"

type_synonym jobj = "(string \<times> json) list"

text \<open>
  The structs \<^verbatim>\<open>BuildTraitContext\<close> reads, with the fields it reads. A pointer is
  an \<open>option\<close>; a \<^verbatim>\<open>runtime.RawExtension\<close> is its \<^verbatim>\<open>Raw\<close> bytes, \<open>None\<close>
  when they are nil.
\<close>

type_synonym RawExtension = "string option"

record MetadataContext =
  md_Name :: string
  md_Namespace :: string
  md_Labels :: "(string \<times> string) list"
  md_Annotations :: "(string \<times> string) list"
  md_PodSelectors :: "(string \<times> string) list"

record EnvironmentContext =
  env_Name :: string
  env_VirtualHost :: string

record SchemaInput =
  Types :: "RawExtension option"
  ParametersSchema :: "RawExtension option"
  EnvOverridesSchema :: "RawExtension option"

record Trait =
  trait_Name :: string
  schema_Types :: "RawExtension option"
  schema_Parameters :: "RawExtension option"
  schema_EnvOverrides :: "RawExtension option"

record Component =
  comp_Name :: string
  comp_Namespace :: string

record ComponentTrait =
  InstanceName :: string
  inst_Parameters :: "RawExtension option"

record ComponentDeployment =
  TraitOverrides :: "(string \<rightharpoonup> RawExtension) option"

record 's TraitContextInput =
  in_Trait :: "Trait option"
  in_Component :: "Component option"
  in_Instance :: ComponentTrait
  in_ComponentDeployment :: "ComponentDeployment option"
  in_Environment :: EnvironmentContext
  in_Metadata :: MetadataContext
  in_SchemaCache :: "(string \<rightharpoonup> 's option) option"

text \<open>
  Functions \<^verbatim>\<open>BuildTraitContext\<close> calls whose source is not part of the files at
  hand (\<^verbatim>\<open>BuildStructuralSchema\<close>, \<^verbatim>\<open>extractParameters\<close>, \<^verbatim>\<open>deepMerge\<close>,
  \<^verbatim>\<open>schema.ApplyDefaults\<close>) and the JSON decoder: parameters of the model. \<open>'s\<close>
  is the structural schema.
\<close>

record 's ctx_deps =
  BuildStructuralSchema :: "SchemaInput \<Rightarrow> error + 's"
  extractParameters :: "RawExtension option \<Rightarrow> error + jobj"
  json_Unmarshal :: "string \<Rightarrow> error + jobj"
  deepMerge :: "jobj \<Rightarrow> jobj \<Rightarrow> jobj"
  ApplyDefaults :: "jobj \<Rightarrow> 's \<Rightarrow> jobj"

text \<open>
  What \<^verbatim>\<open>BuildTraitContext\<close> leaves behind: the two returned values, as Go returns
  them, and the schema cache of the input, which the function may have written to.
\<close>

record 's built =
  ctx :: "jobj option"
  build_err :: "error option"
  cache :: "(string \<rightharpoonup> 's option) option"

definition extractParametersFromRawExtension ::
  "'s ctx_deps \<Rightarrow> RawExtension option \<Rightarrow> error + jobj" where
  "extractParametersFromRawExtension P raw =
     (case raw of
        None \<Rightarrow> Inr []
      | Some None \<Rightarrow> Inr []
      | Some (Some bytes) \<Rightarrow>
          (case json_Unmarshal P bytes of
             Inl e \<Rightarrow> Inl (Errorf ''failed to unmarshal parameters'' (Some e))
           | Inr params \<Rightarrow> Inr params))"

definition stringMap :: "(string \<times> string) list \<Rightarrow> json" where
  "stringMap m = JObj (map (\<lambda>(k, v). (k, JStr v)) m)"

text \<open>Steps 5 to 8: the context around the merged parameters.\<close>

definition assembleContext :: "'s TraitContextInput \<Rightarrow> Trait \<Rightarrow> Component \<Rightarrow> jobj \<Rightarrow> jobj" where
  "assembleContext input trait component parameters =
     [(''parameters'', JObj parameters),
      (''trait'', JObj [(''name'', JStr (trait_Name trait)),
                        (''instanceName'', JStr (InstanceName (in_Instance input)))]),
      (''component'',
         JObj ((''name'', JStr (comp_Name component)) #
               (if comp_Namespace component \<noteq> []
                then [(''namespace'', JStr (comp_Namespace component))] else []))),
      (''environment'',
         JObj [(''name'', JStr (env_Name (in_Environment input))),
               (''vhost'', JStr (env_VirtualHost (in_Environment input)))]),
      (''metadata'',
         JObj ([(''name'', JStr (md_Name (in_Metadata input))),
                (''namespace'', JStr (md_Namespace (in_Metadata input)))]
               @ (if length (md_Labels (in_Metadata input)) > 0
                  then [(''labels'', stringMap (md_Labels (in_Metadata input)))] else [])
               @ (if length (md_Annotations (in_Metadata input)) > 0
                  then [(''annotations'', stringMap (md_Annotations (in_Metadata input)))]
                  else [])
               @ (if length (md_PodSelectors (in_Metadata input)) > 0
                  then [(''podSelectors'', stringMap (md_PodSelectors (in_Metadata input)))]
                  else [])))]"

text \<open>Step 1: the structural schema, from the cache or built and stored there.\<close>

definition cachedSchema :: "'s TraitContextInput \<Rightarrow> string \<Rightarrow> 's option" where
  "cachedSchema input traitName =
     (case in_SchemaCache input of
        None \<Rightarrow> None
      | Some m \<Rightarrow> (case m traitName of None \<Rightarrow> None | Some cached \<Rightarrow> cached))"

definition storeSchema ::
  "'s TraitContextInput \<Rightarrow> string \<Rightarrow> 's \<Rightarrow> (string \<rightharpoonup> 's option) option" where
  "storeSchema input traitName structural =
     (case in_SchemaCache input of
        None \<Rightarrow> None
      | Some m \<Rightarrow> Some (m(traitName \<mapsto> Some structural)))"

text \<open>Steps 2 to 4: instance parameters, then the overrides, then the defaults.\<close>

definition mergedParameters ::
  "'s ctx_deps \<Rightarrow> 's TraitContextInput \<Rightarrow> 's \<Rightarrow> error + jobj" where
  "mergedParameters P input structural =
     (case extractParameters P (inst_Parameters (in_Instance input)) of
        Inl e \<Rightarrow> Inl (Errorf ''failed to extract trait instance parameters'' (Some e))
      | Inr parameters \<Rightarrow>
          (case (case in_ComponentDeployment input of
                   None \<Rightarrow> None
                 | Some cd \<Rightarrow>
                     (case TraitOverrides cd of
                        None \<Rightarrow> None
                      | Some overrides \<Rightarrow> overrides (InstanceName (in_Instance input)))) of
             None \<Rightarrow> Inr (ApplyDefaults P parameters structural)
           | Some instanceOverride \<Rightarrow>
               (case extractParametersFromRawExtension P (Some instanceOverride) of
                  Inl e \<Rightarrow>
                    Inl (Errorf ''failed to extract trait environment overrides'' (Some e))
                | Inr envOverrides \<Rightarrow>
                    Inr (ApplyDefaults P (deepMerge P parameters envOverrides) structural))))"

definition BuildTraitContext :: "'s ctx_deps \<Rightarrow> 's TraitContextInput option \<Rightarrow> 's built" where
  "BuildTraitContext P inp =
     (case inp of
        None \<Rightarrow>
          \<lparr>ctx = None, build_err = Some (Errorf ''trait context input is nil'' None),
           cache = None\<rparr>
      | Some input \<Rightarrow>
     (case in_Trait input of
        None \<Rightarrow>
          \<lparr>ctx = None, build_err = Some (Errorf ''trait is nil'' None),
           cache = in_SchemaCache input\<rparr>
      | Some trait \<Rightarrow>
     (case in_Component input of
        None \<Rightarrow>
          \<lparr>ctx = None, build_err = Some (Errorf ''component is nil'' None),
           cache = in_SchemaCache input\<rparr>
      | Some component \<Rightarrow>
     (if md_Name (in_Metadata input) = []
      then \<lparr>ctx = None, build_err = Some (Errorf ''metadata.name is required'' None),
            cache = in_SchemaCache input\<rparr>
      else if md_Namespace (in_Metadata input) = []
      then \<lparr>ctx = None, build_err = Some (Errorf ''metadata.namespace is required'' None),
            cache = in_SchemaCache input\<rparr>
      else
        (case (case cachedSchema input (trait_Name trait) of
                 Some structural \<Rightarrow> Inr (structural, in_SchemaCache input)
               | None \<Rightarrow>
                   (case BuildStructuralSchema P
                           \<lparr>Types = schema_Types trait,
                            ParametersSchema = schema_Parameters trait,
                            EnvOverridesSchema = schema_EnvOverrides trait\<rparr> of
                      Inl e \<Rightarrow> Inl (Errorf ''failed to build trait schema'' (Some e))
                    | Inr structural \<Rightarrow>
                        Inr (structural, storeSchema input (trait_Name trait) structural))) of
           Inl e \<Rightarrow> \<lparr>ctx = None, build_err = Some e, cache = in_SchemaCache input\<rparr>
         | Inr (structural, cache') \<Rightarrow>
             (case mergedParameters P input structural of
                Inl e \<Rightarrow> \<lparr>ctx = None, build_err = Some e, cache = cache'\<rparr>
              | Inr parameters \<Rightarrow>
                  \<lparr>ctx = Some (assembleContext input trait component parameters),
                   build_err = None, cache = cache'\<rparr>))))))"

section \<open>The merge helpers, from the specification\<close>

text \<open>
  Modelled from the spec: \<^verbatim>\<open>deepMerge\<close>, which \<^verbatim>\<open>BuildTraitContext\<close> calls and
  whose source is not part of the files at hand. The specification says: the merge is
  a deep, recursive merge for nested map values; any non-map value at a given key is
  replaced wholesale by the higher-precedence value (no array splicing).
  \<open>mergeMaps base override\<close> goes through the entries of \<open>override\<close>; \<open>mergeValue\<close>
  is what one key receives, given what \<open>base\<close> holds there.
\<close>

fun setKey :: "string \<Rightarrow> json \<Rightarrow> jobj \<Rightarrow> jobj" where
  "setKey k v [] = [(k, v)]"
| "setKey k v ((k', v') # m) = (if k' = k then (k, v) # m else (k', v') # setKey k v m)"

fun mergeMaps :: "jobj \<Rightarrow> jobj \<Rightarrow> jobj"
and mergeValue :: "json option \<Rightarrow> json \<Rightarrow> json" where
  "mergeMaps base [] = base"
| "mergeMaps base ((k, v) # override) =
     mergeMaps (setKey k (mergeValue (map_of base k) v) base) override"
| "mergeValue (Some (JObj b)) (JObj ov) = JObj (mergeMaps b ov)"
| "mergeValue _ v = v"

text \<open>
  Modelled from the spec: \<^verbatim>\<open>schema.ApplyDefaults\<close> and the structural schema, whose
  sources are not part of the files at hand. The specification gives the schema
  default the lowest precedence of the three layers, under the same merge; the schema
  is modelled by the tree of its default values, and the defaults fill what the
  parameters leave open.
\<close>

definition applySchemaDefaults :: "jobj \<Rightarrow> jobj \<Rightarrow> jobj" where
  "applySchemaDefaults parameters defaults = mergeMaps defaults parameters"

definition isMap :: "json \<Rightarrow> bool" where
  "isMap v = (case v of JObj _ \<Rightarrow> True | _ \<Rightarrow> False)"

text \<open>The parameters under which \<^verbatim>\<open>BuildTraitContext\<close> runs with these helpers.\<close>

definition usesSpecHelpers :: "jobj ctx_deps \<Rightarrow> bool" where
  "usesSpecHelpers P \<longleftrightarrow> deepMerge P = mergeMaps \<and> ApplyDefaults P = applySchemaDefaults"

section \<open>Notions the properties are stated with\<close>


definition selectorLabels :: "deps \<Rightarrow> Release \<Rightarrow> (string \<times> string) list" where
  "selectorLabels D release =
     [(LabelKeyManagedBy D, ControllerName), (LabelKeyReleaseUID D, UID release)]"

text \<open>
  The stale set in the words of the specification: the live resources whose
  resource-ID label is absent from the desired-ID set.
\<close>

definition staleBySpec ::
  "deps \<Rightarrow> Unstructured list \<Rightarrow> Unstructured list \<Rightarrow> Unstructured list" where
  "staleBySpec D liveResources desiredResources =
     filter (\<lambda>liveObj. label liveObj (LabelKeyReleaseResourceID D)
                          \<notin> set (desiredResourceIDs D desiredResources))
            liveResources"

text \<open>
  The path through \<^verbatim>\<open>finalize\<close> that ends in the removal of the finalizer: the
  finalizer is present, the finalizing condition is already recorded, the cluster
  client resolves, the listing returns no resource, and the update is accepted.
\<close>

definition removalConditions :: "deps \<Rightarrow> control_plane \<Rightarrow> cluster \<Rightarrow> Release \<Rightarrow> bool" where
  "removalConditions D cp c release \<longleftrightarrow>
     ContainsFinalizer release DataPlaneCleanupFinalizer \<and>
     \<not> snd (SetStatusCondition (Conditions (Status release))
             (NewReleaseFinalizingCondition D (Generation release))) \<and>
     getDPClient cp (Namespace release) (EnvironmentName (Spec release)) = None \<and>
     listLiveResourcesByGVKs D c release
        (findAllKnownGVKs [] (status_Resources (Status release))) = Inr [] \<and>
     Update cp (fst (RemoveFinalizer
                  (setConditions release
                     (fst (SetStatusCondition (Conditions (Status release))
                             (NewReleaseFinalizingCondition D (Generation release)))))
                  DataPlaneCleanupFinalizer)) = None"

text \<open>
  The base interval of a requeue: the configured one, or the default. \<open>jittered\<close> is
  what both interval functions return for a base interval.
\<close>

definition baseOf :: "int option \<Rightarrow> int \<Rightarrow> int" where
  "baseOf configured dflt = (case configured of None \<Rightarrow> dflt | Some d \<Rightarrow> d)"

definition jittered :: "deps \<Rightarrow> int \<Rightarrow> int" where
  "jittered D base = (if base = 0 then 0 else addJitter D base (jitterMaxOf base))"

text \<open>
  For \<^verbatim>\<open>BuildTraitContext\<close>: whether the checked inputs are there; the schema it
  works with (cached or built); the override it finds for the trait instance, and
  that override decoded (the empty map when there is none).
\<close>

definition requiredInputsPresent :: "'s TraitContextInput option \<Rightarrow> bool" where
  "requiredInputsPresent inp =
     (case inp of
        None \<Rightarrow> False
      | Some input \<Rightarrow>
          in_Trait input \<noteq> None \<and> in_Component input \<noteq> None \<and>
          md_Name (in_Metadata input) \<noteq> [] \<and> md_Namespace (in_Metadata input) \<noteq> [])"

definition traitSchema :: "'s ctx_deps \<Rightarrow> 's TraitContextInput \<Rightarrow> Trait \<Rightarrow> error + 's" where
  "traitSchema P input trait =
     (case cachedSchema input (trait_Name trait) of
        Some structural \<Rightarrow> Inr structural
      | None \<Rightarrow>
          BuildStructuralSchema P
            \<lparr>Types = schema_Types trait, ParametersSchema = schema_Parameters trait,
             EnvOverridesSchema = schema_EnvOverrides trait\<rparr>)"

definition instanceOverride :: "'s TraitContextInput \<Rightarrow> RawExtension option" where
  "instanceOverride input =
     (case in_ComponentDeployment input of
        None \<Rightarrow> None
      | Some cd \<Rightarrow>
          (case TraitOverrides cd of
             None \<Rightarrow> None
           | Some overrides \<Rightarrow> overrides (InstanceName (in_Instance input))))"

definition envOverridesOf :: "'s ctx_deps \<Rightarrow> 's TraitContextInput \<Rightarrow> error + jobj" where
  "envOverridesOf P input =
     (case instanceOverride input of
        None \<Rightarrow> Inr []
      | Some raw \<Rightarrow> extractParametersFromRawExtension P (Some raw))"

section \<open>Example inputs\<close>

definition ConfigMapGVK :: GroupVersionKind where
  "ConfigMapGVK = \<lparr>Group = [], Version = ''v1'', Kind = ''ConfigMap''\<rparr>"

definition rawConfigMap :: Unstructured where
  "rawConfigMap =
     \<lparr>GVK = ConfigMapGVK, GetName = ''settings'', GetNamespace = ''dp-ns'',
      metadata_labels = [''app'' \<mapsto> ''demo'', ''resource-id'' \<mapsto> ''forged''],
      nonStringLabels = []\<rparr>"

text \<open>
  A document decoded from JSON whose labels are \<^verbatim>\<open>{"app": "demo", "tier": 1}\<close>:
  the value under \<open>tier\<close> is a number.
\<close>

definition rawMixed :: Unstructured where
  "rawMixed =
     \<lparr>GVK = ConfigMapGVK, GetName = ''mixed'', GetNamespace = ''dp-ns'',
      metadata_labels = [''app'' \<mapsto> ''demo''], nonStringLabels = [''tier'']\<rparr>"

definition exFinalizing :: "int \<Rightarrow> Condition" where
  "exFinalizing g =
     \<lparr>cond_Type = ''Finalizing'', cond_Status = ''True'', cond_Reason = ''Finalizing'',
      cond_Message = [], cond_ObservedGeneration = g\<rparr>"

definition D0 :: deps where
  "D0 =
     \<lparr>LabelKeyManagedBy = ''managed-by'',
      LabelKeyReleaseResourceID = ''resource-id'',
      LabelKeyReleaseUID = ''release-uid'',
      LabelKeyReleaseName = ''release-name'',
      LabelKeyReleaseNamespace = ''release-namespace'',
      LabelKeyCreatedBy = ''created-by'',
      LabelKeyEnvironmentName = ''environment'',
      LabelKeyProjectName = ''project'',
      UnmarshalJSON =
        (\<lambda>raw. if raw = ''cm'' then Inr rawConfigMap
                else if raw = ''mixed'' then Inr rawMixed
                else Inl (ApiError ''invalid JSON'')),
      LabelSelectorAsSelector = Inr,
      NewReleaseFinalizingCondition = exFinalizing,
      NewReleaseCleanupFailedCondition =
        (\<lambda>g e. \<lparr>cond_Type = ''CleanupFailed'', cond_Status = ''True'',
                 cond_Reason = ''CleanupFailed'', cond_Message = [],
                 cond_ObservedGeneration = g\<rparr>),
      updateStatus = (\<lambda>old release desiredResources liveResources. (release, False, None)),
      hasTransitioningResources = (\<lambda>rs. False),
      rand_Intn = (\<lambda>n. n - 1)\<rparr>"

definition exRelease :: Release where
  "exRelease =
     \<lparr>Name = ''web'', Namespace = ''org'', UID = ''uid-1'', Generation = 1,
      DeletionTimestamp = None, Finalizers = [DataPlaneCleanupFinalizer],
      Spec = \<lparr>EnvironmentName = ''dev'', Owner_ProjectName = ''shop'',
              Resources = [\<lparr>res_ID = ''cm-1'', res_Object = ''cm''\<rparr>],
              Interval = None, ProgressingInterval = None\<rparr>,
      Status = \<lparr>status_Resources =
                  [\<lparr>rs_ID = ''cm-1'', rs_Group = [], rs_Version = ''v1'',
                    rs_Kind = ''ConfigMap'', rs_Name = ''settings'',
                    rs_Namespace = ''dp-ns''\<rparr>],
                Conditions = []\<rparr>\<rparr>"


text \<open>The same Release under deletion, its finalizing condition already recorded.\<close>

definition exDeleting :: Release where
  "exDeleting =
     exRelease\<lparr>DeletionTimestamp := Some 1,
               Status := \<lparr>status_Resources = status_Resources (Status exRelease),
                          Conditions = [exFinalizing 1]\<rparr>\<rparr>"

text \<open>The same Release when its deletion is first seen: no condition recorded yet.\<close>

definition exDeletionSeen :: Release where
  "exDeletionSeen = exRelease\<lparr>DeletionTimestamp := Some 1\<rparr>"

definition tracked :: "string \<Rightarrow> string \<Rightarrow> Unstructured" where
  "tracked n resourceID =
     \<lparr>GVK = ConfigMapGVK, GetName = n, GetNamespace = ''dp-ns'',
      metadata_labels =
        [''managed-by'' \<mapsto> ''release-controller'', ''release-uid'' \<mapsto> ''uid-1'',
         ''resource-id'' \<mapsto> resourceID],
      nonStringLabels = []\<rparr>"

text \<open>A live object that matches the selector and carries no resource-ID label.\<close>

definition unlabelled :: Unstructured where
  "unlabelled =
     \<lparr>GVK = ConfigMapGVK, GetName = ''stray'', GetNamespace = ''dp-ns'',
      metadata_labels =
        [''managed-by'' \<mapsto> ''release-controller'', ''release-uid'' \<mapsto> ''uid-1''],
      nonStringLabels = []\<rparr>"

definition healthy :: "Unstructured list \<Rightarrow> cluster" where
  "healthy objs =
     \<lparr>objects = objs, listErr = (\<lambda>g. None), deleteErr = (\<lambda>obj. None),
      lingers = (\<lambda>obj. False), deleteCalls = [],
      patchErr = (\<lambda>obj. None), getErr = (\<lambda>n. None), createErr = (\<lambda>n. None)\<rparr>"

text \<open>A cluster whose \<^verbatim>\<open>List\<close> of ConfigMaps times out.\<close>

definition listTimesOut :: "Unstructured list \<Rightarrow> cluster" where
  "listTimesOut objs =
     (healthy objs)\<lparr>listErr :=
        (\<lambda>g. if g = ConfigMapGVK then Some (ApiError ''timeout'') else None)\<rparr>"

text \<open>A cluster on which the object named \<open>legacy\<close> lingers after its deletion.\<close>

definition legacyLingers :: "Unstructured list \<Rightarrow> cluster" where
  "legacyLingers objs = (healthy objs)\<lparr>lingers := (\<lambda>obj. GetName obj = ''legacy'')\<rparr>"

text \<open>A cluster that refuses to delete the object named \<open>a\<close>.\<close>

definition deleteRefused :: "Unstructured list \<Rightarrow> cluster" where
  "deleteRefused objs =
     (healthy objs)\<lparr>deleteErr :=
        (\<lambda>obj. if GetName obj = ''a'' then Some (ApiError ''conflict'') else None)\<rparr>"

definition cp0 :: control_plane where
  "cp0 =
     \<lparr>GetEnvironment = (\<lambda>ns n. Inr ''dp''),
      GetDataPlane = (\<lambda>ns n. Inr \<lparr>dp_Name = ''dp'', dp_Namespace = ''org''\<rparr>),
      GetK8sClient = (\<lambda>ns n. None),
      Update = (\<lambda>release. None),
      UpdateStatusConditions = (\<lambda>old release. None)\<rparr>"

text \<open>An interval of \<open>2 ^ 55 + 5\<close> nanoseconds, about 417 days.\<close>

definition exLongInterval :: Release where
  "exLongInterval =
     exRelease\<lparr>Spec := (Spec exRelease)\<lparr>Interval := Some 36028797018963973\<rparr>\<rparr>"

text \<open>
  A trait instance \<open>db-1\<close> with schema defaults, instance parameters and an
  environment override; the key \<open>size\<close> is in all three layers, \<open>resources\<close> is
  a nested map in all three.
\<close>

definition exDefaults :: jobj where
  "exDefaults =
     [(''size'', JStr ''small''), (''port'', JNum 3306),
      (''resources'', JObj [(''cpu'', JStr ''100m''), (''memory'', JStr ''128Mi'')])]"

definition exParams :: jobj where
  "exParams =
     [(''database'', JStr ''mydb''), (''size'', JStr ''medium''),
      (''resources'', JObj [(''cpu'', JStr ''200m'')])]"

definition exOverrides :: jobj where
  "exOverrides = [(''size'', JStr ''large''), (''resources'', JObj [(''memory'', JStr ''1Gi'')])]"

definition P0 :: "jobj ctx_deps" where
  "P0 =
     \<lparr>BuildStructuralSchema = (\<lambda>schemaInput. Inr exDefaults),
      extractParameters =
        (\<lambda>raw. if raw = Some (Some ''params'') then Inr exParams else Inr []),
      json_Unmarshal =
        (\<lambda>bytes. if bytes = ''overrides'' then Inr exOverrides
                  else Inl (ApiError ''invalid JSON'')),
      deepMerge = mergeMaps,
      ApplyDefaults = applySchemaDefaults\<rparr>"

definition exTrait :: Trait where
  "exTrait = \<lparr>trait_Name = ''mysql-trait'', schema_Types = None, schema_Parameters = None,
              schema_EnvOverrides = None\<rparr>"

definition exComponent :: Component where
  "exComponent = \<lparr>comp_Name = ''test-component'', comp_Namespace = []\<rparr>"

definition exInput :: "jobj TraitContextInput" where
  "exInput =
     \<lparr>in_Trait = Some exTrait,
      in_Component = Some exComponent,
      in_Instance = \<lparr>InstanceName = ''db-1'', inst_Parameters = Some (Some ''params'')\<rparr>,
      in_ComponentDeployment =
        Some \<lparr>TraitOverrides = Some [''db-1'' \<mapsto> Some ''overrides'']\<rparr>,
      in_Environment = \<lparr>env_Name = ''prod'', env_VirtualHost = ''api.example.com''\<rparr>,
      in_Metadata = \<lparr>md_Name = ''test-component-dev-12345678'',
                     md_Namespace = ''test-namespace'', md_Labels = [], md_Annotations = [],
                     md_PodSelectors = []\<rparr>,
      in_SchemaCache = None\<rparr>"

chapter \<open>Properties\<close>

section \<open>Facts about the example inputs\<close>

lemma D0_simps:
  "LabelKeyManagedBy D0 = ''managed-by''"
  "LabelKeyReleaseResourceID D0 = ''resource-id''"
  "LabelKeyReleaseUID D0 = ''release-uid''"
  "LabelKeyReleaseName D0 = ''release-name''"
  "LabelKeyReleaseNamespace D0 = ''release-namespace''"
  "LabelKeyCreatedBy D0 = ''created-by''"
  "LabelKeyEnvironmentName D0 = ''environment''"
  "LabelKeyProjectName D0 = ''project''"
  "UnmarshalJSON D0 =
     (\<lambda>raw. if raw = ''cm'' then Inr rawConfigMap
             else if raw = ''mixed'' then Inr rawMixed
             else Inl (ApiError ''invalid JSON''))"
  "LabelSelectorAsSelector D0 = Inr"
  "NewReleaseFinalizingCondition D0 = exFinalizing"
  "updateStatus D0 = (\<lambda>old release desiredResources liveResources. (release, False, None))"
  "hasTransitioningResources D0 = (\<lambda>rs. False)"
  "rand_Intn D0 = (\<lambda>n. n - 1)"
  by (simp_all add: D0_def)

lemma exRelease_simps:
  "Name exRelease = ''web''"
  "Namespace exRelease = ''org''"
  "UID exRelease = ''uid-1''"
  "Generation exRelease = 1"
  "DeletionTimestamp exRelease = None"
  "Finalizers exRelease = [DataPlaneCleanupFinalizer]"
  "EnvironmentName (Spec exRelease) = ''dev''"
  "Owner_ProjectName (Spec exRelease) = ''shop''"
  "Resources (Spec exRelease) = [\<lparr>res_ID = ''cm-1'', res_Object = ''cm''\<rparr>]"
  "Interval (Spec exRelease) = None"
  "ProgressingInterval (Spec exRelease) = None"
  "status_Resources (Status exRelease) =
     [\<lparr>rs_ID = ''cm-1'', rs_Group = [], rs_Version = ''v1'', rs_Kind = ''ConfigMap'',
       rs_Name = ''settings'', rs_Namespace = ''dp-ns''\<rparr>]"
  "Conditions (Status exRelease) = []"
  by (simp_all add: exRelease_def)


lemma exDeleting_simps:
  "Name exDeleting = ''web''"
  "Namespace exDeleting = ''org''"
  "UID exDeleting = ''uid-1''"
  "Generation exDeleting = 1"
  "DeletionTimestamp exDeleting = Some 1"
  "Finalizers exDeleting = [DataPlaneCleanupFinalizer]"
  "EnvironmentName (Spec exDeleting) = ''dev''"
  "status_Resources (Status exDeleting) =
     [\<lparr>rs_ID = ''cm-1'', rs_Group = [], rs_Version = ''v1'', rs_Kind = ''ConfigMap'',
       rs_Name = ''settings'', rs_Namespace = ''dp-ns''\<rparr>]"
  "Conditions (Status exDeleting) = [exFinalizing 1]"
  by (simp_all add: exDeleting_def exRelease_def)

lemma exDeletionSeen_simps:
  "Generation exDeletionSeen = 1"
  "Finalizers exDeletionSeen = [DataPlaneCleanupFinalizer]"
  "Conditions (Status exDeletionSeen) = []"
  by (simp_all add: exDeletionSeen_def exRelease_def)

lemma exFinalizing_simps [simp]:
  "cond_Type (exFinalizing g) = ''Finalizing''"
  "cond_Status (exFinalizing g) = ''True''"
  "cond_Reason (exFinalizing g) = ''Finalizing''"
  "cond_Message (exFinalizing g) = []"
  "cond_ObservedGeneration (exFinalizing g) = g"
  by (simp_all add: exFinalizing_def)

lemma healthy_simps [simp]:
  "objects (healthy objs) = objs"
  "listErr (healthy objs) = (\<lambda>g. None)"
  "deleteErr (healthy objs) = (\<lambda>obj. None)"
  "lingers (healthy objs) = (\<lambda>obj. False)"
  "deleteCalls (healthy objs) = []"
  "patchErr (healthy objs) = (\<lambda>obj. None)"
  "getErr (healthy objs) = (\<lambda>n. None)"
  "createErr (healthy objs) = (\<lambda>n. None)"
  by (simp_all add: healthy_def)

lemma listTimesOut_simps [simp]:
  "objects (listTimesOut objs) = objs"
  "listErr (listTimesOut objs) =
     (\<lambda>g. if g = ConfigMapGVK then Some (ApiError ''timeout'') else None)"
  "deleteErr (listTimesOut objs) = (\<lambda>obj. None)"
  "patchErr (listTimesOut objs) = (\<lambda>obj. None)"
  "getErr (listTimesOut objs) = (\<lambda>n. None)"
  "createErr (listTimesOut objs) = (\<lambda>n. None)"
  by (simp_all add: listTimesOut_def)

lemma deleteRefused_simps [simp]:
  "objects (deleteRefused objs) = objs"
  "listErr (deleteRefused objs) = (\<lambda>g. None)"
  "deleteErr (deleteRefused objs) =
     (\<lambda>obj. if GetName obj = ''a'' then Some (ApiError ''conflict'') else None)"
  "lingers (deleteRefused objs) = (\<lambda>obj. False)"
  "deleteCalls (deleteRefused objs) = []"
  by (simp_all add: deleteRefused_def)

lemma legacyLingers_simps [simp]:
  "objects (legacyLingers objs) = objs"
  "listErr (legacyLingers objs) = (\<lambda>g. None)"
  "deleteErr (legacyLingers objs) = (\<lambda>obj. None)"
  "lingers (legacyLingers objs) = (\<lambda>obj. GetName obj = ''legacy'')"
  "deleteCalls (legacyLingers objs) = []"
  by (simp_all add: legacyLingers_def)

lemma cp0_simps [simp]:
  "GetEnvironment cp0 = (\<lambda>ns n. Inr ''dp'')"
  "GetDataPlane cp0 = (\<lambda>ns n. Inr \<lparr>dp_Name = ''dp'', dp_Namespace = ''org''\<rparr>)"
  "GetK8sClient cp0 = (\<lambda>ns n. None)"
  "Update cp0 = (\<lambda>release. None)"
  "UpdateStatusConditions cp0 = (\<lambda>old release. None)"
  by (simp_all add: cp0_def)

lemma tracked_simps [simp]:
  "GVK (tracked n i) = ConfigMapGVK"
  "GetName (tracked n i) = n"
  "GetNamespace (tracked n i) = ''dp-ns''"
  "GetLabels (tracked n i) =
     [''managed-by'' \<mapsto> ''release-controller'', ''release-uid'' \<mapsto> ''uid-1'',
      ''resource-id'' \<mapsto> i]"
  by (simp_all add: tracked_def GetLabels_def)

lemma probe_inventory:
  "findAllKnownGVKs []
     [\<lparr>rs_ID = ''cm-1'', rs_Group = [], rs_Version = ''v1'', rs_Kind = ''ConfigMap'',
       rs_Name = ''settings'', rs_Namespace = ''dp-ns''\<rparr>] = [ConfigMapGVK]"
  by (simp add: findAllKnownGVKs_def setTrue_def ConfigMapGVK_def)

lemma P0_simps [simp]:
  "BuildStructuralSchema P0 = (\<lambda>schemaInput. Inr exDefaults)"
  "extractParameters P0 = (\<lambda>raw. if raw = Some (Some ''params'') then Inr exParams else Inr [])"
  "json_Unmarshal P0 = (\<lambda>bytes. if bytes = ''overrides'' then Inr exOverrides
                  else Inl (ApiError ''invalid JSON''))"
  "deepMerge P0 = mergeMaps" "ApplyDefaults P0 = applySchemaDefaults"
  by (simp_all add: P0_def)

lemma exInput_simps [simp]:
  "in_Trait exInput = Some exTrait" "in_Component exInput = Some exComponent"
  "in_Instance exInput = \<lparr>InstanceName = ''db-1'', inst_Parameters = Some (Some ''params'')\<rparr>"
  "in_ComponentDeployment exInput = Some \<lparr>TraitOverrides = Some [''db-1'' \<mapsto> Some ''overrides'']\<rparr>"
  "md_Name (in_Metadata exInput) = ''test-component-dev-12345678''"
  "md_Namespace (in_Metadata exInput) = ''test-namespace''"
  "in_SchemaCache exInput = None"
  by (simp_all add: exInput_def)

section \<open>The probe set of live-resource discovery\<close>

lemma set_fold_setTrue:
  "set (fold (\<lambda>x s. setTrue (f x) s) xs acc) = set acc \<union> f ` set xs"
  by (induction xs arbitrary: acc) (auto simp: setTrue_def)

lemma distinct_fold_setTrue:
  "distinct acc \<Longrightarrow> distinct (fold (\<lambda>x s. setTrue (f x) s) xs acc)"
  by (induction xs arbitrary: acc) (auto simp: setTrue_def)

text \<open>What the returned slice holds: the kinds of the desired documents and of the
  status inventory, each once.\<close>

lemma findAllKnownGVKs_set:
  "set (findAllKnownGVKs desiredResources appliedResources) =
     GVK ` set desiredResources \<union>
     (\<lambda>a. \<lparr>Group = rs_Group a, Version = rs_Version a, Kind = rs_Kind a\<rparr>)
       ` set appliedResources"
  by (simp add: findAllKnownGVKs_def Let_def set_fold_setTrue)

lemma findAllKnownGVKs_distinct:
  "distinct (findAllKnownGVKs desiredResources appliedResources)"
  by (simp add: findAllKnownGVKs_def Let_def distinct_fold_setTrue)

text \<open>
  Claim C1. The probe set is said to be the union of the kinds of the desired
  documents, the kinds of the status inventory and the catalog of well-known kinds,
  so that every catalog entry is probed even when neither of the first two names it.
  The function builds the returned slice before it adds the catalog to the set: with
  no desired document and an empty inventory it returns no kind at all, although the
  catalog holds \<^verbatim>\<open>v1/Service\<close> and 24 kinds more.
\<close>

theorem findAllKnownGVKs_leaves_out_catalog:
  "findAllKnownGVKs [] [] = [] \<and>
   length wellKnownGVKs = 25 \<and>
   \<lparr>Group = [], Version = ''v1'', Kind = ''Service''\<rparr> \<in> set wellKnownGVKs \<and>
   \<lparr>Group = [], Version = ''v1'', Kind = ''Service''\<rparr> \<notin> set (findAllKnownGVKs [] [])"
  by (simp add: findAllKnownGVKs_def wellKnownGVKs_def)

section \<open>Ownership labels\<close>



text \<open>The function returns documents exactly when every raw document decodes.\<close>

lemma makeDesiredLoop_succeeds_iff:
  "(\<exists>docs. makeDesiredLoop D release rs = Inr docs) \<longleftrightarrow>
     (\<forall>r \<in> set rs. \<exists>obj. UnmarshalJSON D (res_Object r) = Inr obj)"
  by (induction rs) (auto split: sum.splits)




section \<open>The stale set and its deletion\<close>

lemma desiredResourceIDs_set:
  "set (desiredResourceIDs D desired) =
     {i. i \<noteq> [] \<and> i \<in> (\<lambda>d. label d (LabelKeyReleaseResourceID D)) ` set desired}"
proof -
  have "set (fold (\<lambda>obj s. let resourceID = label obj k
                           in if resourceID \<noteq> [] then setTrue resourceID s else s) xs acc)
        = set acc \<union> {i. i \<noteq> [] \<and> i \<in> (\<lambda>d. label d k) ` set xs}" for xs acc k
    by (induction xs arbitrary: acc) (auto simp: setTrue_def Let_def)
  then show ?thesis
    by (simp add: desiredResourceIDs_def)
qed

lemma findStaleResources_filter:
  "findStaleResources D live desired =
     filter (\<lambda>l. label l (LabelKeyReleaseResourceID D) \<noteq> [] \<and>
                 label l (LabelKeyReleaseResourceID D)
                   \<notin> (\<lambda>d. label d (LabelKeyReleaseResourceID D)) ` set desired) live"
  unfolding findStaleResources_def Let_def desiredResourceIDs_set
  by (rule filter_cong) auto

text \<open>One \<^verbatim>\<open>Delete\<close> call: what it records and what it leaves on the cluster.\<close>

lemma dpDelete_calls:
  "dpDelete c obj = (r, c') \<Longrightarrow> deleteCalls c' = deleteCalls c @ [(obj, r)]"
  by (auto simp: dpDelete_def split: option.splits)

lemma dpDelete_ok:
  "dpDelete c obj = (None, c') \<Longrightarrow>
     objects c' = (if lingers c obj then objects c
                   else filter (\<lambda>x. \<not> sameResource obj x) (objects c))"
  by (auto simp: dpDelete_def split: option.splits)

lemma dpDelete_lingers:
  "dpDelete c obj = (r, c') \<Longrightarrow> lingers c' = lingers c"
  by (auto simp: dpDelete_def split: option.splits)

lemma dpDelete_subset:
  "dpDelete c obj = (r, c') \<Longrightarrow> set (objects c') \<subseteq> set (objects c)"
  by (auto simp: dpDelete_def split: option.splits if_splits)

lemma deleteResources_subset:
  "deleteResources D c xs = (e, c') \<Longrightarrow> set (objects c') \<subseteq> set (objects c)"
proof (induction xs arbitrary: c)
  case Nil
  then show ?case by simp
next
  case (Cons x xs)
  obtain r c1 where d: "dpDelete c x = (r, c1)"
    by (cases "dpDelete c x")
  show ?case
  proof (cases r)
    case None
    with d Cons.prems have "deleteResources D c1 xs = (e, c')" by simp
    from Cons.IH[OF this] dpDelete_subset[OF d] show ?thesis by blast
  next
    case (Some a)
    with d Cons.prems have "c' = c1" by simp
    with dpDelete_subset[OF d] show ?thesis by simp
  qed
qed

text \<open>
  A run of \<^verbatim>\<open>deleteResources\<close> without error has made one accepted call for each
  resource handed to it, in order, and no other call.
\<close>

lemma deleteResources_all_accepted:
  "deleteResources D c xs = (None, c') \<Longrightarrow>
     deleteCalls c' = deleteCalls c @ map (\<lambda>x. (x, None)) xs"
proof (induction xs arbitrary: c)
  case Nil
  then show ?case by simp
next
  case (Cons a xs)
  obtain r c1 where d: "dpDelete c a = (r, c1)"
    by (cases "dpDelete c a")
  with Cons.prems have r: "r = None"
    by (cases r) auto
  with d Cons.prems have rest: "deleteResources D c1 xs = (None, c')"
    by simp
  from Cons.IH[OF rest] dpDelete_calls[OF d] r show ?case
    by simp
qed

text \<open>
  A run that returns an error has made accepted calls for the resources before the
  failing one, in order, then the failing call, and no call after it; the error wraps
  the answer of the failing call.
\<close>

lemma deleteResources_stops_at_failure:
  "deleteResources D c xs = (Some e, c') \<Longrightarrow>
     \<exists>ys x zs cause.
        xs = ys @ x # zs \<and>
        deleteCalls c' = deleteCalls c @ map (\<lambda>y. (y, None)) ys @ [(x, Some cause)] \<and>
        e = Errorf (''failed to delete stale resource ''
                      @ label x (LabelKeyReleaseResourceID D)) (Some cause)"
proof (induction xs arbitrary: c)
  case Nil
  then show ?case by simp
next
  case (Cons a xs)
  obtain r c1 where d: "dpDelete c a = (r, c1)"
    by (cases "dpDelete c a")
  show ?case
  proof (cases r)
    case None
    with d Cons.prems have rest: "deleteResources D c1 xs = (Some e, c')"
      by simp
    from Cons.IH[OF rest] obtain ys x zs cause where
      xs: "xs = ys @ x # zs" and
      calls: "deleteCalls c' = deleteCalls c1 @ map (\<lambda>y. (y, None)) ys @ [(x, Some cause)]"
      and e: "e = Errorf (''failed to delete stale resource ''
                            @ label x (LabelKeyReleaseResourceID D)) (Some cause)"
      by blast
    from xs have "a # xs = (a # ys) @ x # zs"
      by simp
    moreover from calls dpDelete_calls[OF d] None
    have "deleteCalls c' = deleteCalls c @ map (\<lambda>y. (y, None)) (a # ys) @ [(x, Some cause)]"
      by simp
    ultimately show ?thesis
      using e by blast
  next
    case (Some cause)
    with d Cons.prems have e: "e = Errorf (''failed to delete stale resource ''
                            @ label a (LabelKeyReleaseResourceID D)) (Some cause)"
      and c': "c' = c1"
      by simp_all
    have "a # xs = [] @ a # xs"
      by simp
    moreover from dpDelete_calls[OF d] Some c'
    have "deleteCalls c' = deleteCalls c @ map (\<lambda>y. (y, None)) [] @ [(a, Some cause)]"
      by simp
    ultimately show ?thesis
      using e by blast
  qed
qed

lemma deleteResources_lingers:
  "deleteResources D c xs = (e, c') \<Longrightarrow> lingers c' = lingers c"
proof (induction xs arbitrary: c)
  case Nil
  then show ?case by simp
next
  case (Cons a xs)
  obtain r c1 where d: "dpDelete c a = (r, c1)"
    by (cases "dpDelete c a")
  show ?case
  proof (cases r)
    case None
    with d Cons.prems have "deleteResources D c1 xs = (e, c')" by simp
    from Cons.IH[OF this] dpDelete_lingers[OF d] show ?thesis by simp
  next
    case (Some a)
    with d Cons.prems have "c' = c1" by simp
    with dpDelete_lingers[OF d] show ?thesis by simp
  qed
qed

text \<open>After a run without error, a resource handed to it that does not linger is
  no longer on the cluster.\<close>

lemma deleteResources_gone:
  "deleteResources D c xs = (None, c') \<Longrightarrow> x \<in> set xs \<Longrightarrow> \<not> lingers c x
     \<Longrightarrow> y \<in> set (objects c') \<Longrightarrow> \<not> sameResource x y"
proof (induction xs arbitrary: c)
  case Nil
  then show ?case by simp
next
  case (Cons a xs)
  obtain r c1 where d: "dpDelete c a = (r, c1)"
    by (cases "dpDelete c a")
  with Cons.prems(1) have r: "r = None"
    by (cases r) auto
  with d Cons.prems(1) have rest: "deleteResources D c1 xs = (None, c')"
    by simp
  from dpDelete_lingers[OF d] Cons.prems(3) have l1: "\<not> lingers c1 x"
    by simp
  show ?case
  proof (cases "x = a")
    case True
    from deleteResources_subset[OF rest] Cons.prems(4) have "y \<in> set (objects c1)"
      by auto
    with dpDelete_ok[of c a c1] d r True Cons.prems(3) show ?thesis
      by auto
  next
    case False
    with Cons.prems(2) have "x \<in> set xs" by simp
    from Cons.IH[OF rest this l1 Cons.prems(4)] show ?thesis .
  qed
qed

lemma reconcileRequeue_dataplane [simp]:
  "dataplane (reconcileRequeue D c old release desired live) = c"
  by (simp add: reconcileRequeue_def split: prod.splits)

text \<open>
  Claim C3, as amended. In a steady-state pass whose discovery returned the live
  resources \<open>live\<close>, the stale set computed by \<^verbatim>\<open>findStaleResources\<close> is exactly the
  live resources that carry a non-empty resource-ID label which is not the
  resource-ID label of any desired document. The pass calls \<^verbatim>\<open>Delete\<close> on the
  stale resources in order and stops at the first call that fails: the calls it has
  then made are the accepted ones for the resources before the failing one and the
  failing call, and the pass returns the error of that call, wrapped. When no call
  fails, the pass has made exactly one accepted \<^verbatim>\<open>Delete\<close> call for every stale
  resource, in order, and every stale resource that does not linger is gone from
  the cluster.
\<close>

theorem stale_set_and_its_deletion:
  assumes listed:
    "listLiveResourcesByGVKs D c release
       (findAllKnownGVKs desired (status_Resources (Status release))) = Inr live"
  shows "findStaleResources D live desired =
           filter (\<lambda>l. label l (LabelKeyReleaseResourceID D) \<noteq> [] \<and>
                       label l (LabelKeyReleaseResourceID D)
                         \<notin> (\<lambda>d. label d (LabelKeyReleaseResourceID D)) ` set desired) live
         \<and> (case deleteResources D c (findStaleResources D live desired) of
              (Some e, c') \<Rightarrow>
                 err (reconcileDiscover D c old release desired) = Some e \<and>
                 dataplane (reconcileDiscover D c old release desired) = c' \<and>
                 (\<exists>ys x zs cause.
                    findStaleResources D live desired = ys @ x # zs \<and>
                    deleteCalls c'
                      = deleteCalls c @ map (\<lambda>y. (y, None)) ys @ [(x, Some cause)] \<and>
                    e = Errorf (''failed to delete stale resource ''
                                  @ label x (LabelKeyReleaseResourceID D)) (Some cause))
            | (None, c') \<Rightarrow>
                 dataplane (reconcileDiscover D c old release desired) = c' \<and>
                 deleteCalls c'
                   = deleteCalls c
                       @ map (\<lambda>x. (x, None)) (findStaleResources D live desired) \<and>
                 (\<forall>x \<in> set (findStaleResources D live desired).
                    \<not> lingers c x \<longrightarrow> (\<forall>y \<in> set (objects c'). \<not> sameResource x y)))"
proof -
  let ?stale = "findStaleResources D live desired"
  obtain r c' where d: "deleteResources D c ?stale = (r, c')"
    by (cases "deleteResources D c ?stale")
  have pass: "dataplane (reconcileDiscover D c old release desired) = c'"
    using d listed by (cases r) (simp_all add: reconcileDiscover_def Let_def)
  have second: "case deleteResources D c ?stale of
              (Some e, c') \<Rightarrow>
                 err (reconcileDiscover D c old release desired) = Some e \<and>
                 dataplane (reconcileDiscover D c old release desired) = c' \<and>
                 (\<exists>ys x zs cause.
                    ?stale = ys @ x # zs \<and>
                    deleteCalls c'
                      = deleteCalls c @ map (\<lambda>y. (y, None)) ys @ [(x, Some cause)] \<and>
                    e = Errorf (''failed to delete stale resource ''
                                  @ label x (LabelKeyReleaseResourceID D)) (Some cause))
            | (None, c') \<Rightarrow>
                 dataplane (reconcileDiscover D c old release desired) = c' \<and>
                 deleteCalls c' = deleteCalls c @ map (\<lambda>x. (x, None)) ?stale \<and>
                 (\<forall>x \<in> set ?stale.
                    \<not> lingers c x \<longrightarrow> (\<forall>y \<in> set (objects c'). \<not> sameResource x y))"
  proof (cases r)
    case None
    with d have d': "deleteResources D c ?stale = (None, c')"
      by simp
    from deleteResources_all_accepted[OF d'] deleteResources_gone[OF d'] pass
    show ?thesis
      unfolding d' by auto
  next
    case (Some e)
    with d have d': "deleteResources D c ?stale = (Some e, c')"
      by simp
    have "err (reconcileDiscover D c old release desired) = Some e"
      using d' listed by (simp add: reconcileDiscover_def Let_def)
    with deleteResources_stops_at_failure[OF d'] pass show ?thesis
      unfolding d' by simp
  qed
  from findStaleResources_filter[of D live desired] second show ?thesis
    by (rule conjI)
qed

text \<open>
  A pass over a cluster that holds the desired ConfigMap \<open>settings\<close> and two
  ConfigMaps of IDs that are no longer desired, \<open>old\<close> and \<open>legacy\<close>, the second
  of which lingers: both are the stale set, the pass has made an accepted
  \<^verbatim>\<open>Delete\<close> call for each, \<open>old\<close> is gone and \<open>legacy\<close> is still there.
\<close>

theorem stale_set_and_its_deletion_witness:
  "listLiveResourcesByGVKs D0
      (legacyLingers [tracked ''settings'' ''cm-1'', tracked ''old'' ''cm-9'',
                      tracked ''legacy'' ''cm-0'']) exRelease
      (findAllKnownGVKs [tracked ''settings'' ''cm-1''] (status_Resources (Status exRelease)))
     = Inr [tracked ''settings'' ''cm-1'', tracked ''old'' ''cm-9'',
            tracked ''legacy'' ''cm-0''] \<and>
   findStaleResources D0
      [tracked ''settings'' ''cm-1'', tracked ''old'' ''cm-9'', tracked ''legacy'' ''cm-0'']
      [tracked ''settings'' ''cm-1'']
     = [tracked ''old'' ''cm-9'', tracked ''legacy'' ''cm-0''] \<and>
   deleteCalls (dataplane (reconcileDiscover D0
      (legacyLingers [tracked ''settings'' ''cm-1'', tracked ''old'' ''cm-9'',
                      tracked ''legacy'' ''cm-0''])
      exRelease exRelease [tracked ''settings'' ''cm-1'']))
     = [(tracked ''old'' ''cm-9'', None), (tracked ''legacy'' ''cm-0'', None)] \<and>
   objects (dataplane (reconcileDiscover D0
      (legacyLingers [tracked ''settings'' ''cm-1'', tracked ''old'' ''cm-9'',
                      tracked ''legacy'' ''cm-0''])
      exRelease exRelease [tracked ''settings'' ''cm-1'']))
     = [tracked ''settings'' ''cm-1'', tracked ''legacy'' ''cm-0'']"
proof -
  let ?c = "legacyLingers [tracked ''settings'' ''cm-1'', tracked ''old'' ''cm-9'',
                           tracked ''legacy'' ''cm-0'']"
  let ?live = "[tracked ''settings'' ''cm-1'', tracked ''old'' ''cm-9'',
                tracked ''legacy'' ''cm-0'']"
  let ?desired = "[tracked ''settings'' ''cm-1'']"
  let ?c' = "?c\<lparr>objects := [tracked ''settings'' ''cm-1'', tracked ''legacy'' ''cm-0''],
               deleteCalls := [(tracked ''old'' ''cm-9'', None),
                               (tracked ''legacy'' ''cm-0'', None)]\<rparr>"
  have l: "listLiveResourcesByGVKs D0 ?c exRelease
             (findAllKnownGVKs ?desired (status_Resources (Status exRelease))) = Inr ?live"
    by (simp add: exRelease_simps findAllKnownGVKs_def setTrue_def ConfigMapGVK_def
          listLiveResourcesByGVKs_def D0_simps dpList_def matchesSelector_def
          ControllerName_def)
  have s: "findStaleResources D0 ?live ?desired
             = [tracked ''old'' ''cm-9'', tracked ''legacy'' ''cm-0'']"
    by (simp add: findStaleResources_filter label_def D0_simps)
  have d: "deleteResources D0 ?c [tracked ''old'' ''cm-9'', tracked ''legacy'' ''cm-0'']
             = (None, ?c')"
    by (simp add: dpDelete_def deleteAnswer_def sameResource_def)
  from stale_set_and_its_deletion[OF l, of exRelease, THEN conjunct2]
  have "dataplane (reconcileDiscover D0 ?c exRelease exRelease ?desired) = ?c'"
    unfolding s d by simp
  with l s show ?thesis by simp
qed

text \<open>
  Claim C3 as stated fails twice. A live resource that matches the selector and
  carries no resource-ID label has a label value that is absent from the desired-ID
  set, yet \<^verbatim>\<open>findStaleResources\<close> skips it. And on a cluster that refuses to delete
  the stale resource \<open>a\<close>, the pass makes that one call and returns: no
  \<^verbatim>\<open>Delete\<close> call is made for the stale resource \<open>b\<close>, which is still there.
\<close>

theorem stale_set_as_stated_counterexample:
  "findStaleResources D0 [unlabelled] [] \<noteq> staleBySpec D0 [unlabelled] [] \<and>
   listLiveResourcesByGVKs D0 (deleteRefused [tracked ''a'' ''x'', tracked ''b'' ''y''])
      exRelease (findAllKnownGVKs [] (status_Resources (Status exRelease)))
     = Inr [tracked ''a'' ''x'', tracked ''b'' ''y''] \<and>
   tracked ''b'' ''y''
     \<in> set (findStaleResources D0 [tracked ''a'' ''x'', tracked ''b'' ''y''] []) \<and>
   deleteCalls (dataplane (reconcileDiscover D0
                (deleteRefused [tracked ''a'' ''x'', tracked ''b'' ''y''])
                exRelease exRelease []))
     = [(tracked ''a'' ''x'', Some (ApiError ''conflict''))] \<and>
   tracked ''b'' ''y''
     \<in> set (objects (dataplane (reconcileDiscover D0
                (deleteRefused [tracked ''a'' ''x'', tracked ''b'' ''y''])
                exRelease exRelease [])))"
proof -
  let ?c = "deleteRefused [tracked ''a'' ''x'', tracked ''b'' ''y'']"
  have a: "findStaleResources D0 [unlabelled] [] = []"
    by (simp add: findStaleResources_filter label_def unlabelled_def D0_simps GetLabels_def)
  have b: "staleBySpec D0 [unlabelled] [] = [unlabelled]"
    by (simp add: staleBySpec_def desiredResourceIDs_def label_def unlabelled_def D0_simps
          GetLabels_def)
  have l: "listLiveResourcesByGVKs D0 ?c exRelease
             (findAllKnownGVKs [] (status_Resources (Status exRelease)))
           = Inr [tracked ''a'' ''x'', tracked ''b'' ''y'']"
    by (simp add: exRelease_simps probe_inventory listLiveResourcesByGVKs_def D0_simps
          dpList_def matchesSelector_def ControllerName_def)
  have s: "findStaleResources D0 [tracked ''a'' ''x'', tracked ''b'' ''y''] []
             = [tracked ''a'' ''x'', tracked ''b'' ''y'']"
    by (simp add: findStaleResources_filter label_def D0_simps)
  have d: "deleteResources D0 ?c [tracked ''a'' ''x'', tracked ''b'' ''y'']
             = (Some (Errorf ''failed to delete stale resource x''
                        (Some (ApiError ''conflict''))),
                ?c\<lparr>deleteCalls := [(tracked ''a'' ''x'', Some (ApiError ''conflict''))]\<rparr>)"
    by (simp add: dpDelete_def deleteAnswer_def label_def D0_simps)
  show ?thesis
    using a b l s d by (simp add: reconcileDiscover_def)
qed

section \<open>Listing the live resources\<close>

lemma listLiveLoop_selector_ok:
  "LabelSelectorAsSelector D (selectorLabels D release) = Inr sel \<Longrightarrow>
   listLiveLoop D c release gvks acc =
     Inr (acc @ concat (map (\<lambda>g. case dpList c g sel of Inl e \<Rightarrow> [] | Inr items \<Rightarrow> items)
                            gvks))"
  by (induction gvks arbitrary: acc) (auto simp: selectorLabels_def split: sum.splits)

lemma listLiveLoop_selector_fails:
  "LabelSelectorAsSelector D (selectorLabels D release) = Inl e \<Longrightarrow>
   listLiveLoop D c release gvks acc =
     (if gvks = [] then Inr acc
      else Inl (Errorf ''failed to create label selector'' (Some e)))"
  by (cases gvks) (auto simp: selectorLabels_def)

text \<open>
  Claim C5, as amended. When the \<^verbatim>\<open>List\<close> call for a probed kind fails during
  discovery, \<^verbatim>\<open>listLiveResourcesByGVKs\<close> logs the failure and goes on with the next
  kind: it returns the resources of the kinds whose \<^verbatim>\<open>List\<close> call succeeded, and no
  error. It returns an error only when the label selector cannot be built. A failed
  \<^verbatim>\<open>List\<close> call therefore does not by itself make the invocation return an error.
\<close>

theorem listLiveResourcesByGVKs_skips_failed_lists:
  "listLiveResourcesByGVKs D c release gvks =
     (case LabelSelectorAsSelector D (selectorLabels D release) of
        Inl e \<Rightarrow>
          if gvks = [] then Inr []
          else Inl (Errorf ''failed to create label selector'' (Some e))
      | Inr sel \<Rightarrow>
          Inr (concat (map (\<lambda>g. case dpList c g sel of Inl e \<Rightarrow> [] | Inr items \<Rightarrow> items)
                           gvks)))"
  by (simp add: listLiveResourcesByGVKs_def listLiveLoop_selector_ok
        listLiveLoop_selector_fails split: sum.splits)

theorem listLiveResourcesByGVKs_skips_failed_lists_witness:
  "listLiveResourcesByGVKs D0 (listTimesOut [tracked ''settings'' ''cm-1'']) exRelease
     [ConfigMapGVK] = Inr []"
  using listLiveResourcesByGVKs_skips_failed_lists
          [of D0 "listTimesOut [tracked ''settings'' ''cm-1'']" exRelease "[ConfigMapGVK]"]
  by (simp add: D0_simps dpList_def)

text \<open>
  Claim C5 as stated fails: the \<^verbatim>\<open>List\<close> call for ConfigMaps, a probed kind, times
  out, and the invocation returns no error.
\<close>

theorem failed_list_returns_no_error_counterexample:
  "listErr (listTimesOut []) ConfigMapGVK = Some (ApiError ''timeout'') \<and>
   (\<exists>doc. makeDesiredResources D0 exRelease = Inr [doc] \<and>
      ConfigMapGVK \<in> set (findAllKnownGVKs [doc] (status_Resources (Status exRelease)))) \<and>
   (\<exists>p. Reconcile D0 cp0 (listTimesOut []) (Inr exRelease) = Inr p \<and> err p = None)"
  by (simp add: Reconcile_def reconcileApply_def reconcileDiscover_def reconcileRequeue_def
     IsZero_def ensureFinalizer_def AddFinalizer_def getDPClient_def makeDesiredResources_def
     makeDesiredNamespaces_def exRelease_simps D0_simps rawConfigMap_def setTrue_def
     dpGetNamespace_def dpCreateNamespace_def NamespaceGVK_def ConfigMapGVK_def dpApply_def
     SetLabels_def GetLabels_def
     findAllKnownGVKs_def listLiveResourcesByGVKs_def dpList_def findStaleResources_def
     desiredResourceIDs_def Let_def)

section \<open>Finalization\<close>

lemma setConditions_simps [simp]:
  "UID (setConditions r cs) = UID r"
  "Finalizers (setConditions r cs) = Finalizers r"
  "Namespace (setConditions r cs) = Namespace r"
  "Generation (setConditions r cs) = Generation r"
  "Spec (setConditions r cs) = Spec r"
  "status_Resources (Status (setConditions r cs)) = status_Resources (Status r)"
  "Conditions (Status (setConditions r cs)) = cs"
  by (simp_all add: setConditions_def)

lemma listLiveLoop_UID:
  "UID r = UID r' \<Longrightarrow> listLiveLoop D c r gvks acc = listLiveLoop D c r' gvks acc"
  by (induction gvks arbitrary: acc) (auto split: sum.splits)

lemma listLive_setConditions [simp]:
  "listLiveResourcesByGVKs D c (setConditions r cs) gvks
     = listLiveResourcesByGVKs D c r gvks"
  by (simp add: listLiveResourcesByGVKs_def listLiveLoop_UID[of "setConditions r cs" r])

text \<open>The finalizers the control plane stores after a finalization pass.\<close>

lemma finalize_finalizers:
  "Finalizers (stored (finalize D cp c release release)) =
     (if removalConditions D cp c release
      then filter (\<lambda>x. x \<noteq> DataPlaneCleanupFinalizer) (Finalizers release)
      else Finalizers release)"
  unfolding finalize_def cleanupFailed_def removalConditions_def Let_def
  by (auto simp: RemoveFinalizer_def ContainsFinalizer_def
           split: prod.splits option.splits sum.splits bool.splits)

lemma finalize_dataplane_on_removal:
  "removalConditions D cp c release \<Longrightarrow> dataplane (finalize D cp c release release) = c"
  unfolding finalize_def cleanupFailed_def removalConditions_def Let_def
  by (auto simp: RemoveFinalizer_def ContainsFinalizer_def
           split: prod.splits option.splits sum.splits bool.splits)

lemma listing_empty_no_match:
  assumes "listLiveResourcesByGVKs D c release gvks = Inr []"
    and "LabelSelectorAsSelector D (selectorLabels D release) = Inr sel"
    and "g \<in> set gvks" and "listErr c g = None"
    and "obj \<in> set (objects c)" and "GVK obj = g"
  shows "\<not> matchesSelector sel obj"
proof
  assume m: "matchesSelector sel obj"
  from assms(1,2)
  have "concat (map (\<lambda>g. case dpList c g sel of Inl e \<Rightarrow> [] | Inr items \<Rightarrow> items) gvks) = []"
    by (simp add: listLiveResourcesByGVKs_def listLiveLoop_selector_ok)
  with assms(3) have "(case dpList c g sel of Inl e \<Rightarrow> [] | Inr items \<Rightarrow> items) = []"
    by auto
  with assms(4)
  have "filter (\<lambda>obj. GVK obj = g \<and> matchesSelector sel obj) (objects c) = []"
    by (simp add: dpList_def)
  with assms(5,6) m show False
    by (auto simp: filter_empty_conv)
qed

lemma finalize_requeue:
  assumes "ContainsFinalizer release DataPlaneCleanupFinalizer"
    and "\<not> snd (SetStatusCondition (Conditions (Status release))
                 (NewReleaseFinalizingCondition D (Generation release)))"
    and "getDPClient cp (Namespace release) (EnvironmentName (Spec release)) = None"
    and "listLiveResourcesByGVKs D c release
           (findAllKnownGVKs [] (status_Resources (Status release))) = Inr live"
    and "live \<noteq> []"
    and "deleteResources D c live = (None, c')"
  shows "finalize D cp c release release =
           \<lparr>RequeueAfter = 5 * Second, err = None, stored = release, dataplane = c'\<rparr>"
  using assms unfolding finalize_def Let_def
  by (auto split: prod.splits bool.splits)

lemma removal_listTimesOut:
  "removalConditions D0 cp0 (listTimesOut [tracked ''settings'' ''cm-1'']) exDeleting"
  by (simp add: removalConditions_def ContainsFinalizer_def exDeleting_simps D0_simps
        SetStatusCondition_def getDPClient_def probe_inventory listLiveResourcesByGVKs_def
        dpList_def RemoveFinalizer_def)

lemma no_removal_when_first_seen:
  "\<not> removalConditions D0 cp0 (healthy []) exDeletionSeen"
  by (simp add: removalConditions_def exDeletionSeen_simps D0_simps SetStatusCondition_def)

text \<open>
  Claim C2, as amended. A finalization pass on a Release that holds the cleanup
  finalizer removes it if and only if the finalizing condition was already recorded,
  the cluster client resolves, the live-resource listing of that pass returns no
  resource, and the control plane accepts the update. The listing covers the kinds of
  the status inventory and skips a kind whose \<^verbatim>\<open>List\<close> call fails; so whenever a pass
  removes the finalizer it has deleted nothing, and no resource of a listed kind
  whose \<^verbatim>\<open>List\<close> call succeeded matches the selector (managed-by and the Release's
  UID).
\<close>

theorem finalizer_removed_iff_listing_empty:
  assumes fin: "ContainsFinalizer release DataPlaneCleanupFinalizer"
  shows "(DataPlaneCleanupFinalizer
            \<notin> set (Finalizers (stored (finalize D cp c release release)))
            \<longleftrightarrow> removalConditions D cp c release)
         \<and> (removalConditions D cp c release \<longrightarrow>
              dataplane (finalize D cp c release release) = c \<and>
              (\<forall>sel. LabelSelectorAsSelector D (selectorLabels D release) = Inr sel \<longrightarrow>
                 (\<forall>obj \<in> set (objects c).
                    GVK obj \<in> set (findAllKnownGVKs [] (status_Resources (Status release))) \<and>
                    listErr c (GVK obj) = None \<longrightarrow> \<not> matchesSelector sel obj)))"
proof -
  have a: "DataPlaneCleanupFinalizer
             \<notin> set (Finalizers (stored (finalize D cp c release release)))
            \<longleftrightarrow> removalConditions D cp c release"
    using fin by (auto simp: finalize_finalizers ContainsFinalizer_def)
  have b: "\<not> matchesSelector sel obj"
    if "removalConditions D cp c release"
      and "LabelSelectorAsSelector D (selectorLabels D release) = Inr sel"
      and "obj \<in> set (objects c)"
      and "GVK obj \<in> set (findAllKnownGVKs [] (status_Resources (Status release)))"
      and "listErr c (GVK obj) = None" for sel obj
    using that listing_empty_no_match[of D c release _ sel "GVK obj" obj]
    by (auto simp: removalConditions_def)
  from a b finalize_dataplane_on_removal show ?thesis by blast
qed

text \<open>
  A cluster that holds one ConfigMap without the ownership labels: the listing is
  empty, the finalizer goes, and the ConfigMap, which does not match the selector,
  is untouched.
\<close>

theorem finalizer_removed_iff_listing_empty_witness:
  "ContainsFinalizer exDeleting DataPlaneCleanupFinalizer \<and>
   removalConditions D0 cp0 (healthy [rawConfigMap]) exDeleting \<and>
   DataPlaneCleanupFinalizer
     \<notin> set (Finalizers (stored (finalize D0 cp0 (healthy [rawConfigMap])
                                 exDeleting exDeleting))) \<and>
   objects (dataplane (finalize D0 cp0 (healthy [rawConfigMap]) exDeleting exDeleting))
     = [rawConfigMap] \<and>
   LabelSelectorAsSelector D0 (selectorLabels D0 exDeleting)
     = Inr (selectorLabels D0 exDeleting) \<and>
   \<not> matchesSelector (selectorLabels D0 exDeleting) rawConfigMap"
proof -
  have f: "ContainsFinalizer exDeleting DataPlaneCleanupFinalizer"
    by (simp add: ContainsFinalizer_def exDeleting_simps)
  have r: "removalConditions D0 cp0 (healthy [rawConfigMap]) exDeleting"
    by (simp add: removalConditions_def ContainsFinalizer_def exDeleting_simps D0_simps
          SetStatusCondition_def getDPClient_def probe_inventory
          listLiveResourcesByGVKs_def dpList_def RemoveFinalizer_def matchesSelector_def
          rawConfigMap_def GetLabels_def)
  have s: "LabelSelectorAsSelector D0 (selectorLabels D0 exDeleting)
             = Inr (selectorLabels D0 exDeleting)"
    by (simp add: D0_simps)
  have g: "GVK rawConfigMap
             \<in> set (findAllKnownGVKs [] (status_Resources (Status exDeleting)))"
    by (simp add: exDeleting_simps probe_inventory rawConfigMap_def)
  from finalizer_removed_iff_listing_empty[OF f, of D0 cp0 "healthy [rawConfigMap]"] r s g
  have "DataPlaneCleanupFinalizer
          \<notin> set (Finalizers (stored (finalize D0 cp0 (healthy [rawConfigMap])
                                      exDeleting exDeleting)))"
    and "dataplane (finalize D0 cp0 (healthy [rawConfigMap]) exDeleting exDeleting)
          = healthy [rawConfigMap]"
    and "\<not> matchesSelector (selectorLabels D0 exDeleting) rawConfigMap"
    by auto
  with f r s show ?thesis by simp
qed

text \<open>
  Claim C2 as stated fails in both directions. The \<^verbatim>\<open>List\<close> call for ConfigMaps
  times out: the pass removes the finalizer while a ConfigMap with the Release's UID
  label is live on the cluster. And in the pass that first sees the deletion, on an
  empty cluster, the finalizer stays.
\<close>

theorem finalizer_removed_with_live_resource_counterexample:
  "DataPlaneCleanupFinalizer \<in> set (Finalizers exDeleting) \<and>
   DataPlaneCleanupFinalizer
      \<notin> set (Finalizers (stored (finalize D0 cp0
                 (listTimesOut [tracked ''settings'' ''cm-1'']) exDeleting exDeleting))) \<and>
   tracked ''settings'' ''cm-1''
      \<in> set (objects (dataplane (finalize D0 cp0
                 (listTimesOut [tracked ''settings'' ''cm-1'']) exDeleting exDeleting))) \<and>
   GetLabels (tracked ''settings'' ''cm-1'') (LabelKeyReleaseUID D0) = Some (UID exDeleting) \<and>
   objects (healthy []) = [] \<and>
   DataPlaneCleanupFinalizer
      \<in> set (Finalizers (stored (finalize D0 cp0 (healthy []) exDeletionSeen exDeletionSeen)))"
  using removal_listTimesOut no_removal_when_first_seen
  by (simp add: finalize_finalizers finalize_dataplane_on_removal exDeleting_simps
        exDeletionSeen_simps D0_simps)

text \<open>
  Claim C10. A finalization pass whose listing is not empty leaves the finalizers as
  they are: the finalizer can only go in a pass whose listing returned no resource.
  When the listing is not empty and every delete call succeeds, the pass returns no
  error, leaves the Release as it is and asks to be requeued after five seconds.
\<close>

theorem finalize_requeues_while_resources_are_listed:
  "(listLiveResourcesByGVKs D c release
       (findAllKnownGVKs [] (status_Resources (Status release))) \<noteq> Inr []
      \<longrightarrow> Finalizers (stored (finalize D cp c release release)) = Finalizers release)
   \<and> (\<forall>live.
        listLiveResourcesByGVKs D c release
          (findAllKnownGVKs [] (status_Resources (Status release))) = Inr live \<and>
        live \<noteq> [] \<and>
        ContainsFinalizer release DataPlaneCleanupFinalizer \<and>
        \<not> snd (SetStatusCondition (Conditions (Status release))
                 (NewReleaseFinalizingCondition D (Generation release))) \<and>
        getDPClient cp (Namespace release) (EnvironmentName (Spec release)) = None \<and>
        fst (deleteResources D c live) = None
        \<longrightarrow> RequeueAfter (finalize D cp c release release) = 5 * Second \<and>
            err (finalize D cp c release release) = None \<and>
            stored (finalize D cp c release release) = release)"
proof -
  have a: "Finalizers (stored (finalize D cp c release release)) = Finalizers release"
    if "listLiveResourcesByGVKs D c release
          (findAllKnownGVKs [] (status_Resources (Status release))) \<noteq> Inr []"
  proof -
    from that have "\<not> removalConditions D cp c release"
      by (simp add: removalConditions_def)
    then show ?thesis
      by (simp add: finalize_finalizers)
  qed
  have b: "RequeueAfter (finalize D cp c release release) = 5 * Second \<and>
           err (finalize D cp c release release) = None \<and>
           stored (finalize D cp c release release) = release"
    if listed: "listLiveResourcesByGVKs D c release
          (findAllKnownGVKs [] (status_Resources (Status release))) = Inr live"
      and nonempty: "live \<noteq> []"
      and h1: "ContainsFinalizer release DataPlaneCleanupFinalizer"
      and h2: "\<not> snd (SetStatusCondition (Conditions (Status release))
                     (NewReleaseFinalizingCondition D (Generation release)))"
      and h3: "getDPClient cp (Namespace release) (EnvironmentName (Spec release)) = None"
      and h4: "fst (deleteResources D c live) = None" for live
  proof -
    obtain c' where "deleteResources D c live = (None, c')"
      using h4 by (cases "deleteResources D c live") auto
    from finalize_requeue[OF h1 h2 h3 listed nonempty this] show ?thesis
      by simp
  qed
  from a b show ?thesis by blast
qed

theorem finalize_requeues_while_resources_are_listed_witness:
  "listLiveResourcesByGVKs D0 (healthy [tracked ''settings'' ''cm-1'']) exDeleting
      (findAllKnownGVKs [] (status_Resources (Status exDeleting)))
     = Inr [tracked ''settings'' ''cm-1''] \<and>
   fst (deleteResources D0 (healthy [tracked ''settings'' ''cm-1''])
          [tracked ''settings'' ''cm-1'']) = None \<and>
   Finalizers (stored (finalize D0 cp0 (healthy [tracked ''settings'' ''cm-1''])
                         exDeleting exDeleting)) = [DataPlaneCleanupFinalizer] \<and>
   RequeueAfter (finalize D0 cp0 (healthy [tracked ''settings'' ''cm-1''])
                   exDeleting exDeleting) = 5000000000 \<and>
   err (finalize D0 cp0 (healthy [tracked ''settings'' ''cm-1'']) exDeleting exDeleting)
     = None"
proof -
  let ?c = "healthy [tracked ''settings'' ''cm-1'']"
  have l: "listLiveResourcesByGVKs D0 ?c exDeleting
      (findAllKnownGVKs [] (status_Resources (Status exDeleting)))
        = Inr [tracked ''settings'' ''cm-1'']"
    by (simp add: exDeleting_simps probe_inventory listLiveResourcesByGVKs_def D0_simps
          dpList_def matchesSelector_def ControllerName_def)
  have d: "fst (deleteResources D0 ?c [tracked ''settings'' ''cm-1'']) = None"
    by (simp add: dpDelete_def deleteAnswer_def sameResource_def)
  have f: "ContainsFinalizer exDeleting DataPlaneCleanupFinalizer"
    by (simp add: ContainsFinalizer_def exDeleting_simps)
  have s: "\<not> snd (SetStatusCondition (Conditions (Status exDeleting))
                     (NewReleaseFinalizingCondition D0 (Generation exDeleting)))"
    by (simp add: SetStatusCondition_def exDeleting_simps D0_simps)
  have g: "getDPClient cp0 (Namespace exDeleting) (EnvironmentName (Spec exDeleting)) = None"
    by (simp add: getDPClient_def)
  from finalize_requeues_while_resources_are_listed[of D0 ?c exDeleting cp0] l d f s g
  show ?thesis
    by (simp add: exDeleting_simps Second_def)
qed

section \<open>The requeue interval\<close>

text \<open>The bit length, and what rounding to 53 bits can add.\<close>

lemma bitlen_nonpos [simp]: "n \<le> 0 \<Longrightarrow> bitlen n = 0"
  by (simp add: bitlen.simps)

lemma bitlen_pos: "0 < n \<Longrightarrow> bitlen n = Suc (bitlen (n div 2))"
  by (subst bitlen.simps) simp

lemma bitlen_bounds: "0 < n \<Longrightarrow> 2 ^ (bitlen n - 1) \<le> n \<and> n < 2 ^ bitlen n"
proof (induction n rule: bitlen.induct)
  case (1 n)
  show ?case
  proof (cases "n div 2 = 0")
    case True
    with "1.prems" have "n = 1" by presburger
    then show ?thesis by (simp add: bitlen_pos)
  next
    case False
    with "1.prems" have pos: "0 < n div 2" by presburger
    from "1.IH" "1.prems" pos have ih: "2 ^ (bitlen (n div 2) - 1) \<le> n div 2" "n div 2 < 2 ^ bitlen (n div 2)"
      by auto
    from pos have bl: "bitlen (n div 2) > 0" by (simp add: bitlen_pos)
    then obtain k where k: "bitlen (n div 2) = Suc k" by (cases "bitlen (n div 2)") auto
    from ih k have "2 ^ k \<le> n div 2" "n div 2 < 2 * 2 ^ k" by auto
    then have "2 * 2 ^ k \<le> n" "n < 2 * (2 * 2 ^ k)" by presburger+
    with "1.prems" k show ?thesis by (simp add: bitlen_pos)
  qed
qed

lemma bitlen_le: "n < 2 ^ k \<Longrightarrow> bitlen n \<le> k"
proof (cases "0 < n")
  case True
  assume "n < 2 ^ k"
  with bitlen_bounds[OF True] have "(2::int) ^ (bitlen n - 1) < 2 ^ k" by linarith
  then have "bitlen n - 1 < k" by simp
  then show ?thesis by simp
next
  case False
  then show ?thesis by simp
qed

lemma round53_small: "m < 2 ^ 53 \<Longrightarrow> round53 m = m"
  using bitlen_le[of m 53] by (simp add: round53_def)

lemma round53_nonneg: "0 \<le> m \<Longrightarrow> 0 \<le> round53 m"
  by (auto simp: round53_def Let_def pos_imp_zdiv_nonneg_iff)

lemma round53_upper:
  assumes "0 \<le> m"
  shows "round53 m * 2 ^ 52 \<le> m * (2 ^ 52 + 1)"
proof (cases "bitlen m \<le> 53")
  case True
  with assms show ?thesis by (simp add: round53_def algebra_simps)
next
  case False
  define s where "s = bitlen m - 53"
  from False have s: "bitlen m = s + 53" "0 < s" by (simp_all add: s_def)
  from False have mpos: "0 < m" using assms by (cases "m = 0") auto
  from bitlen_bounds[OF mpos] s have "(2::int) ^ (s + 52) \<le> m" by (simp add: add.commute)
  then have p: "(2::int) ^ s * 2 ^ 52 \<le> m" by (simp add: power_add)
  have "round53 m \<le> (m div 2 ^ s + 1) * 2 ^ s"
    using False by (simp add: round53_def Let_def s_def)
  also have "\<dots> = (m div 2 ^ s) * 2 ^ s + 2 ^ s" by (simp add: algebra_simps)
  also have "\<dots> \<le> m + 2 ^ s"
  proof -
    have "(m div 2 ^ s) * 2 ^ s = m - m mod 2 ^ s" by (simp add: minus_mod_eq_div_mult)
    moreover have "0 \<le> m mod (2::int) ^ s" by simp
    ultimately show ?thesis by linarith
  qed
  finally have "round53 m \<le> m + 2 ^ s" .
  then have "round53 m * 2 ^ 52 \<le> (m + 2 ^ s) * 2 ^ 52" by simp
  also have "\<dots> = m * 2 ^ 52 + 2 ^ s * 2 ^ 52" by (simp add: algebra_simps)
  also have "\<dots> \<le> m * 2 ^ 52 + m" using p by simp
  finally show ?thesis by (simp add: algebra_simps)
qed

lemma jitterMaxOf_pos_eq:
  assumes "0 < b" "b < 2 ^ 53"
  shows "jitterMaxOf b = round53 (b * 7205759403792794) div 2 ^ 55"
proof -
  from assms have f: "float64_of_int64 b = b"
    by (simp add: float64_of_int64_def round53_small)
  from assms have "0 \<le> round53 (b * 7205759403792794)"
    by (intro round53_nonneg) simp
  then have "Duration_of_float64 (round53 (b * 7205759403792794))
               = round53 (b * 7205759403792794) div 2 ^ 55"
    by (cases "round53 (b * 7205759403792794) = 0") (simp_all add: Duration_of_float64_def)
  with assms f show ?thesis
    by (simp add: jitterMaxOf_def float64_mul_0_2_def)
qed

lemma jitterMaxOf_bound:
  assumes "0 < b" "b < 2 ^ 53"
  shows "0 \<le> jitterMaxOf b" and "5 * (jitterMaxOf b - 1) \<le> b" and "jitterMaxOf b < 2 ^ 53"
proof -
  let ?N = "b * 7205759403792794"
  let ?R = "round53 ?N"
  have jm: "jitterMaxOf b = ?R div 2 ^ 55" using assms by (rule jitterMaxOf_pos_eq)
  from assms have Rn: "0 \<le> ?R" by (intro round53_nonneg) simp
  then show z: "0 \<le> jitterMaxOf b" by (simp add: jm pos_imp_zdiv_nonneg_iff)
  have "jitterMaxOf b * 2 ^ 55 \<le> ?R"
  proof -
    have "(?R div 2 ^ 55) * 2 ^ 55 = ?R - ?R mod 2 ^ 55" by (simp add: minus_mod_eq_div_mult)
    moreover have "0 \<le> ?R mod 2 ^ 55" by simp
    ultimately show ?thesis unfolding jm by linarith
  qed
  moreover from assms have "?R * 2 ^ 52 \<le> ?N * (2 ^ 52 + 1)"
    by (intro round53_upper) simp
  ultimately have "jitterMaxOf b * 162259276829213363391578010288128 \<le> b * 7205759403792794 * 4503599627370497"
    by simp
  with assms show "5 * (jitterMaxOf b - 1) \<le> b" by simp
  with assms show "jitterMaxOf b < 2 ^ 53" by simp
qed

lemma jitterMaxOf_nonpos: "b \<le> 0 \<Longrightarrow> jitterMaxOf b \<le> 0"
proof -
  assume b: "b \<le> 0"
  have r: "0 \<le> round53 \<bar>b\<bar>" by (rule round53_nonneg) simp
  then have f: "float64_of_int64 b \<le> 0" using b
    by (cases "b = 0") (simp_all add: float64_of_int64_def)
  have "0 \<le> round53 (\<bar>float64_of_int64 b\<bar> * 7205759403792794)" by (rule round53_nonneg) simp
  with f have m: "float64_mul_0_2 (float64_of_int64 b) \<le> 0"
    by (cases "float64_of_int64 b = 0") (simp_all add: float64_mul_0_2_def)
  have "0 \<le> \<bar>float64_mul_0_2 (float64_of_int64 b)\<bar> div 2 ^ 55"
    by (simp add: pos_imp_zdiv_nonneg_iff)
  with m show ?thesis
    by (cases "float64_mul_0_2 (float64_of_int64 b) = 0")
       (simp_all add: jitterMaxOf_def Duration_of_float64_def)
qed

lemma wrap64_id: "- (2 ^ 63) \<le> x \<Longrightarrow> x < 2 ^ 63 \<Longrightarrow> wrap64 x = x"
  by (simp add: wrap64_def)

lemma getStable_jittered:
  "getStableRequeueInterval D release = jittered D (baseOf (Interval (Spec release)) (5 * Minute))"
  by (simp add: getStableRequeueInterval_def jittered_def baseOf_def Minute_def Second_def
           split: option.splits)

lemma getProgressing_jittered:
  "getProgressingRequeueInterval D release =
     jittered D (baseOf (ProgressingInterval (Spec release)) (10 * Second))"
  by (simp add: getProgressingRequeueInterval_def jittered_def baseOf_def Second_def
           split: option.splits)

lemma jittered_bounds:
  assumes rnd: "\<forall>n. 0 < n \<longrightarrow> 0 \<le> rand_Intn D n \<and> rand_Intn D n < n"
    and nz: "b \<noteq> 0" and small: "\<bar>b\<bar> < 2 ^ 53"
  shows "\<exists>j. jittered D b = b + j \<and> 0 \<le> j \<and> 5 * j \<le> \<bar>b\<bar> \<and>
             (if 0 < jitterMaxOf b then j = rand_Intn D (jitterMaxOf b) \<and> j < jitterMaxOf b
              else j = 0)"
proof (cases "0 < jitterMaxOf b")
  case False
  with nz show ?thesis by (simp add: jittered_def addJitter_def)
next
  case True
  with jitterMaxOf_nonpos[of b] have bpos: "0 < b" by (cases "0 < b") auto
  with small have b53: "b < 2 ^ 53" by simp
  let ?j = "rand_Intn D (jitterMaxOf b)"
  from rnd True have j: "0 \<le> ?j" "?j < jitterMaxOf b" by auto
  from jitterMaxOf_bound[OF bpos b53] j have j5: "5 * ?j \<le> b" and jlt: "?j < 2 ^ 53" by auto
  from bpos b53 j jlt have "wrap64 (b + ?j) = b + ?j" by (intro wrap64_id) auto
  with True nz j j5 bpos show ?thesis
    by (simp add: jittered_def addJitter_def Let_def)
qed

lemma jitterMaxOf_5min: "jitterMaxOf (5 * Minute) = 60 * Second"
  by code_simp

lemma jitterMaxOf_10s: "jitterMaxOf (10 * Second) = 2 * Second"
  by code_simp

lemma jitterMaxOf_long: "jitterMaxOf 36028797018963973 = 7205759403792796"
  by code_simp

text \<open>
  Claim C6, as amended. When a pass reaches its end (the status write neither failed
  nor changed anything), the requeue delay is the progressing interval if
  \<^verbatim>\<open>hasTransitioningResources\<close> holds of the tracked resources and the stable
  interval otherwise. The base of the progressing interval is the configured
  \<^verbatim>\<open>ProgressingInterval\<close> or 10 seconds, that of the stable interval the configured
  \<^verbatim>\<open>Interval\<close> or 5 minutes. A base of zero gives a delay of zero. For a base other
  than zero and of magnitude below \<open>2 ^ 53\<close> nanoseconds (about 104 days) the delay
  is the base plus a jitter: the jitter is the draw of \<^verbatim>\<open>rand.Intn\<close> from
  \<open>[0, jitterMaxOf base)\<close> when that bound is positive and zero otherwise (a negative
  base, or one below 5 nanoseconds); it is never negative and never more than a
  fifth of the magnitude of the base. \<^verbatim>\<open>rand.Intn n\<close> is taken to return a value
  of \<open>[0, n)\<close> for positive \<open>n\<close>; that it draws uniformly is the library's promise.
\<close>

theorem requeue_interval_with_jitter:
  assumes rnd: "\<forall>n. 0 < n \<longrightarrow> 0 \<le> rand_Intn D n \<and> rand_Intn D n < n"
  shows "getStableRequeueInterval D release
           = jittered D (baseOf (Interval (Spec release)) (5 * Minute))
   \<and> getProgressingRequeueInterval D release
           = jittered D (baseOf (ProgressingInterval (Spec release)) (10 * Second))
   \<and> (updateStatus D old release desired live = (release', False, None) \<longrightarrow>
        RequeueAfter (reconcileRequeue D c old release desired live) =
          (if hasTransitioningResources D (status_Resources (Status release'))
           then getProgressingRequeueInterval D release'
           else getStableRequeueInterval D release'))
   \<and> jittered D 0 = 0
   \<and> (\<forall>b. b \<noteq> 0 \<and> \<bar>b\<bar> < 2 ^ 53 \<longrightarrow>
         (\<exists>j. jittered D b = b + j \<and> 0 \<le> j \<and> 5 * j \<le> \<bar>b\<bar> \<and>
             (if 0 < jitterMaxOf b
              then j = rand_Intn D (jitterMaxOf b) \<and> j < jitterMaxOf b
              else j = 0)))"
proof -
  have sel: "RequeueAfter (reconcileRequeue D c old release desired live) =
          (if hasTransitioningResources D (status_Resources (Status release'))
           then getProgressingRequeueInterval D release'
           else getStableRequeueInterval D release')"
    if "updateStatus D old release desired live = (release', False, None)"
    using that by (simp add: reconcileRequeue_def)
  have z: "jittered D 0 = 0"
    by (simp add: jittered_def)
  from sel z jittered_bounds[OF rnd] getStable_jittered getProgressing_jittered
  show ?thesis by blast
qed

text \<open>
  With the largest draw \<open>n - 1\<close>: the defaults give 5 minutes plus 60 seconds less
  a nanosecond, and 10 seconds plus 2 seconds less a nanosecond; a configured
  interval of zero gives zero.
\<close>

theorem requeue_interval_with_jitter_witness:
  "rand_Intn D0 60000000000 = 59999999999 \<and>
   getStableRequeueInterval D0 exRelease = 300000000000 + 59999999999 \<and>
   getProgressingRequeueInterval D0 exRelease = 10000000000 + 1999999999 \<and>
   getStableRequeueInterval D0 (exRelease\<lparr>Spec := (Spec exRelease)\<lparr>Interval := Some 0\<rparr>\<rparr>) = 0 \<and>
   RequeueAfter (reconcileRequeue D0 (healthy []) exRelease exRelease [] []) = 359999999999"
proof -
  have r: "\<forall>n. 0 < n \<longrightarrow> 0 \<le> rand_Intn D0 n \<and> rand_Intn D0 n < n"
    by (simp add: D0_simps)
  have u: "updateStatus D0 exRelease exRelease [] [] = (exRelease, False, None)"
    by (simp add: D0_simps)
  have w: "wrap64 359999999999 = 359999999999" "wrap64 11999999999 = 11999999999"
    by (simp_all add: wrap64_def)
  from requeue_interval_with_jitter
         [OF r, of exRelease exRelease "[]" "[]" exRelease "healthy []"]
       requeue_interval_with_jitter
         [OF r, of "exRelease\<lparr>Spec := (Spec exRelease)\<lparr>Interval := Some 0\<rparr>\<rparr>"
            exRelease "[]" "[]" exRelease "healthy []"]
       u w jitterMaxOf_5min jitterMaxOf_10s
  show ?thesis
    by (simp add: jittered_def baseOf_def addJitter_def exRelease_simps D0_simps
          Minute_def Second_def)
qed

text \<open>
  Claim C6 as stated fails for long intervals: with an interval of \<open>2 ^ 55 + 5\<close>
  nanoseconds the conversion to \<^verbatim>\<open>float64\<close> rounds up, the jitter bound becomes
  7205759403792796, and the largest draw below it is more than a fifth of the base.
\<close>

theorem jitter_above_a_fifth_counterexample:
  "Interval (Spec exLongInterval) = Some 36028797018963973 \<and>
   0 \<le> rand_Intn D0 (jitterMaxOf 36028797018963973) \<and>
   rand_Intn D0 (jitterMaxOf 36028797018963973) < jitterMaxOf 36028797018963973 \<and>
   getStableRequeueInterval D0 exLongInterval = 36028797018963973 + 7205759403792795 \<and>
   36028797018963973 < 5 * (7205759403792795 :: int)"
proof -
  have w: "wrap64 43234556422756768 = 43234556422756768"
    by (simp add: wrap64_def)
  show ?thesis
    using jitterMaxOf_long w
    by (simp add: exLongInterval_def getStableRequeueInterval_def addJitter_def D0_simps)
qed

section \<open>The trait context\<close>

text \<open>
  Claim C7. \<^verbatim>\<open>BuildTraitContext\<close> returns an error and no context whenever the
  input is nil, the trait is nil, the component is nil, or the name or the namespace
  of the generated metadata is empty. A call that returns no error had all of them,
  and returns a context. No call returns a context together with an error.
\<close>

theorem BuildTraitContext_requires_inputs:
  "(\<not> requiredInputsPresent inp \<longrightarrow>
       ctx (BuildTraitContext P inp) = None \<and> build_err (BuildTraitContext P inp) \<noteq> None)
   \<and> (build_err (BuildTraitContext P inp) = None \<longrightarrow>
       requiredInputsPresent inp \<and> ctx (BuildTraitContext P inp) \<noteq> None)
   \<and> (ctx (BuildTraitContext P inp) = None
        \<longleftrightarrow> build_err (BuildTraitContext P inp) \<noteq> None)"
  unfolding BuildTraitContext_def requiredInputsPresent_def
  by (auto split: option.splits sum.splits prod.splits)

theorem BuildTraitContext_requires_inputs_witness:
  "requiredInputsPresent (Some exInput) \<and>
   build_err (BuildTraitContext P0 (Some exInput)) = None \<and>
   ctx (BuildTraitContext P0 (Some exInput)) \<noteq> None \<and>
   \<not> requiredInputsPresent (Some (exInput\<lparr>in_Trait := None\<rparr>)) \<and>
   ctx (BuildTraitContext P0 (Some (exInput\<lparr>in_Trait := None\<rparr>))) = None \<and>
   build_err (BuildTraitContext P0 (Some (exInput\<lparr>in_Trait := None\<rparr>))) \<noteq> None \<and>
   ctx (BuildTraitContext P0 None) = None \<and>
   build_err (BuildTraitContext P0 None) \<noteq> None"
proof -
  have a: "requiredInputsPresent (Some exInput)"
    by (simp add: requiredInputsPresent_def)
  have b: "\<not> requiredInputsPresent (Some (exInput\<lparr>in_Trait := None\<rparr>))"
    by (simp add: requiredInputsPresent_def)
  have n: "\<not> requiredInputsPresent (None :: jobj TraitContextInput option)"
    by (simp add: requiredInputsPresent_def)
  have e: "build_err (BuildTraitContext P0 (Some exInput)) = None"
    by (simp add: BuildTraitContext_def cachedSchema_def mergedParameters_def
          extractParametersFromRawExtension_def)
  from BuildTraitContext_requires_inputs[of "Some exInput" P0]
       BuildTraitContext_requires_inputs[of "Some (exInput\<lparr>in_Trait := None\<rparr>)" P0]
       BuildTraitContext_requires_inputs[of None P0] a b n e
  show ?thesis by simp
qed

lemma mergedParameters_ok:
  assumes "extractParameters P (inst_Parameters (in_Instance input)) = Inr params"
    and "envOverridesOf P input = Inr ov"
  shows "mergedParameters P input s =
           Inr (ApplyDefaults P (case instanceOverride input of None \<Rightarrow> params
                                 | Some raw \<Rightarrow> deepMerge P params ov) s)"
  using assms unfolding mergedParameters_def envOverridesOf_def instanceOverride_def
  by (auto split: option.splits sum.splits)

lemma BuildTraitContext_ok:
  assumes "in_Trait input = Some trait" "in_Component input = Some component"
    and "md_Name (in_Metadata input) \<noteq> []" "md_Namespace (in_Metadata input) \<noteq> []"
    and "traitSchema P input trait = Inr s"
    and "extractParameters P (inst_Parameters (in_Instance input)) = Inr params"
    and "envOverridesOf P input = Inr ov"
  shows "ctx (BuildTraitContext P (Some input)) =
           Some (assembleContext input trait component
                  (ApplyDefaults P (case instanceOverride input of None \<Rightarrow> params
                                    | Some raw \<Rightarrow> deepMerge P params ov) s))
         \<and> build_err (BuildTraitContext P (Some input)) = None"
  using assms(1-5) mergedParameters_ok[OF assms(6,7), of s]
  unfolding BuildTraitContext_def traitSchema_def
  by (auto split: option.splits sum.splits)

lemma map_of_setKey: "map_of (setKey k v m) = (map_of m)(k \<mapsto> v)"
  by (induction m) auto

lemma keys_setKey: "fst ` set (setKey k v m) = insert k (fst ` set m)"
proof -
  have "fst ` set (setKey k v m) = dom (map_of (setKey k v m))"
    by (simp add: dom_map_of_conv_image_fst)
  also have "\<dots> = insert k (dom (map_of m))"
    by (simp add: map_of_setKey)
  finally show ?thesis
    by (simp add: dom_map_of_conv_image_fst)
qed

lemma distinct_setKey: "distinct (map fst m) \<Longrightarrow> distinct (map fst (setKey k v m))"
  by (induction m) (auto simp: keys_setKey)

lemma map_of_mergeMaps:
  "distinct (map fst ov) \<Longrightarrow>
   map_of (mergeMaps base ov) k =
     (case map_of ov k of
        None \<Rightarrow> map_of base k
      | Some v \<Rightarrow> Some (mergeValue (map_of base k) v))"
proof (induction ov arbitrary: base)
  case Nil
  then show ?case by simp
next
  case (Cons a ov)
  obtain k' v' where a: "a = (k', v')" by (cases a)
  from Cons.prems a have d: "distinct (map fst ov)" and nk: "k' \<notin> fst ` set ov"
    by auto
  from nk have nm: "map_of ov k' = None"
    by (simp add: map_of_eq_None_iff)
  show ?case
    using Cons.IH[OF d, of "setKey k' (mergeValue (map_of base k') v') base"] nm
    by (auto simp: a map_of_setKey split: option.splits)
qed

lemma distinct_mergeMaps:
  "distinct (map fst base) \<Longrightarrow> distinct (map fst (mergeMaps base ov))"
  by (induction ov arbitrary: base) (auto simp: distinct_setKey)

lemma mergeValue_not_map: "\<not> isMap v \<Longrightarrow> mergeValue b v = v"
  by (cases "(b, v)" rule: mergeValue.cases) (auto simp: isMap_def)

text \<open>
  Claim C4, with the merge helpers as the specification describes them. The
  parameters of the context are the schema defaults, merged under the instance
  parameters, merged under the environment override of the trait instance. For every
  key: a value of the override that is not a map is the result; where the override
  has no value, a value of the instance parameters that is not a map is the result;
  where neither has a value, the schema default is the result; and where all three
  hold a map, the result is the recursive merge of the three maps in that order of
  precedence.
\<close>

theorem trait_parameters_precedence:
  assumes helpers: "usesSpecHelpers P"
    and present: "in_Trait input = Some trait" "in_Component input = Some component"
       "md_Name (in_Metadata input) \<noteq> []" "md_Namespace (in_Metadata input) \<noteq> []"
    and schema: "traitSchema P input trait = Inr defaults"
    and params: "extractParameters P (inst_Parameters (in_Instance input)) = Inr params"
    and overrides: "envOverridesOf P input = Inr ov"
    and keys: "distinct (map fst params)" "distinct (map fst ov)"
  shows "\<exists>c merged.
           ctx (BuildTraitContext P (Some input)) = Some c \<and>
           map_of c ''parameters'' = Some (JObj merged) \<and>
           merged = mergeMaps defaults (mergeMaps params ov) \<and>
           (\<forall>k v. map_of ov k = Some v \<and> \<not> isMap v \<longrightarrow> map_of merged k = Some v) \<and>
           (\<forall>k v. map_of ov k = None \<and> map_of params k = Some v \<and> \<not> isMap v
                     \<longrightarrow> map_of merged k = Some v) \<and>
           (\<forall>k. map_of ov k = None \<and> map_of params k = None
                     \<longrightarrow> map_of merged k = map_of defaults k) \<and>
           (\<forall>k om pm dm. map_of ov k = Some (JObj om) \<and> map_of params k = Some (JObj pm) \<and>
                     map_of defaults k = Some (JObj dm)
                     \<longrightarrow> map_of merged k = Some (JObj (mergeMaps dm (mergeMaps pm om))))"
proof -
  let ?inner = "mergeMaps params ov"
  let ?merged = "mergeMaps defaults ?inner"
  from helpers have dm: "deepMerge P = mergeMaps" and ad: "ApplyDefaults P = applySchemaDefaults"
    by (simp_all add: usesSpecHelpers_def)
  have noov: "ov = []" if "instanceOverride input = None"
    using that overrides by (simp add: envOverridesOf_def)
  have p: "(case instanceOverride input of None \<Rightarrow> params | Some raw \<Rightarrow> deepMerge P params ov)
             = ?inner"
    using noov by (auto simp: dm split: option.splits)
  from BuildTraitContext_ok[OF present schema params overrides]
  have c: "ctx (BuildTraitContext P (Some input))
             = Some (assembleContext input trait component ?merged)"
    by (simp add: p ad applySchemaDefaults_def)
  have par: "map_of (assembleContext input trait component ?merged) ''parameters''
               = Some (JObj ?merged)"
    by (simp add: assembleContext_def)
  have inner: "map_of ?inner k =
     (case map_of ov k of None \<Rightarrow> map_of params k
      | Some v \<Rightarrow> Some (mergeValue (map_of params k) v))" for k
    using keys(2) by (rule map_of_mergeMaps)
  have dist: "distinct (map fst ?inner)"
    using keys(1) by (rule distinct_mergeMaps)
  have outer: "map_of ?merged k =
     (case map_of ?inner k of None \<Rightarrow> map_of defaults k
      | Some v \<Rightarrow> Some (mergeValue (map_of defaults k) v))" for k
    using dist by (rule map_of_mergeMaps)
  have f1: "map_of ?merged k = Some v" if "map_of ov k = Some v" "\<not> isMap v" for k v
    using that by (simp add: outer inner mergeValue_not_map)
  have f2: "map_of ?merged k = Some v"
    if "map_of ov k = None" "map_of params k = Some v" "\<not> isMap v" for k v
    using that by (simp add: outer inner mergeValue_not_map)
  have f3: "map_of ?merged k = map_of defaults k"
    if "map_of ov k = None" "map_of params k = None" for k
    using that by (simp add: outer inner)
  have f4: "map_of ?merged k = Some (JObj (mergeMaps dm (mergeMaps pm om)))"
    if "map_of ov k = Some (JObj om)" "map_of params k = Some (JObj pm)"
       "map_of defaults k = Some (JObj dm)" for k om pm dm
    using that by (simp add: outer inner)
  from c par f1 f2 f3 f4 show ?thesis by blast
qed


text \<open>
  The example trait instance: \<open>size\<close> is \<open>small\<close> by default, \<open>medium\<close> in the
  instance parameters and \<open>large\<close> in the override.
\<close>

theorem trait_parameters_precedence_witness:
  "usesSpecHelpers P0 \<and>
   traitSchema P0 exInput exTrait = Inr exDefaults \<and>
   extractParameters P0 (inst_Parameters (in_Instance exInput)) = Inr exParams \<and>
   envOverridesOf P0 exInput = Inr exOverrides \<and>
   map_of exDefaults ''size'' = Some (JStr ''small'') \<and>
   map_of exParams ''size'' = Some (JStr ''medium'') \<and>
   map_of exOverrides ''size'' = Some (JStr ''large'') \<and>
   (\<exists>c merged. ctx (BuildTraitContext P0 (Some exInput)) = Some c \<and>
      map_of c ''parameters'' = Some (JObj merged) \<and>
      map_of merged ''size'' = Some (JStr ''large'') \<and>
      map_of merged ''database'' = Some (JStr ''mydb'') \<and>
      map_of merged ''port'' = Some (JNum 3306) \<and>
      map_of merged ''resources''
        = Some (JObj [(''cpu'', JStr ''200m''), (''memory'', JStr ''1Gi'')]))"
proof -
  have h: "usesSpecHelpers P0" by (simp add: usesSpecHelpers_def)
  have p1: "in_Trait exInput = Some exTrait" "in_Component exInput = Some exComponent"
    "md_Name (in_Metadata exInput) \<noteq> []" "md_Namespace (in_Metadata exInput) \<noteq> []"
    by simp_all
  have s: "traitSchema P0 exInput exTrait = Inr exDefaults"
    by (simp add: traitSchema_def cachedSchema_def)
  have p: "extractParameters P0 (inst_Parameters (in_Instance exInput)) = Inr exParams"
    by simp
  have o: "envOverridesOf P0 exInput = Inr exOverrides"
    by (simp add: envOverridesOf_def instanceOverride_def extractParametersFromRawExtension_def)
  have k: "distinct (map fst exParams)" "distinct (map fst exOverrides)"
    by (simp_all add: exParams_def exOverrides_def)
  have m: "mergeMaps exDefaults (mergeMaps exParams exOverrides) =
     [(''size'', JStr ''large''), (''port'', JNum 3306),
      (''resources'', JObj [(''cpu'', JStr ''200m''), (''memory'', JStr ''1Gi'')]),
      (''database'', JStr ''mydb'')]"
    by (simp add: exDefaults_def exParams_def exOverrides_def)
  from trait_parameters_precedence[OF h p1 s p o k] obtain c merged where
    "ctx (BuildTraitContext P0 (Some exInput)) = Some c"
    "map_of c ''parameters'' = Some (JObj merged)"
    "merged = mergeMaps exDefaults (mergeMaps exParams exOverrides)"
    by blast
  with m h s p o show ?thesis
    by (simp add: exDefaults_def exParams_def exOverrides_def)
qed

end
